theory Spec2Isabelle
  imports Main
begin

section \<open>Values shared by the wallet adapters\<close>

text \<open>
  A thrown JavaScript value: the optional numeric \<open>code\<close> of a provider error and its
  \<open>message\<close>. Every \<open>throw\<close> of the source is an \<open>Inl\<close> of this type in the model.
\<close>

datatype error = Error (code: "int option") (message: string)

text \<open>A \<open>Uint8Array\<close>: its bytes, kept opaque.\<close>

type_synonym bytes = "nat list"

text \<open>
  An \<open>algosdk.Transaction\<close>. The adapters read only \<open>txn.sender.toString()\<close>; the rest of
  the transaction is carried along as \<open>body\<close>.
\<close>

datatype transaction = Transaction (sender: string) (body: "nat list")

text \<open>
  The argument \<open>txnGroup: T | T[]\<close> with \<open>T extends algosdk.Transaction[] | Uint8Array[]\<close>:
  a flat array or an array of arrays, of transactions or of encoded transactions.
\<close>

datatype 'a txnGroup = Flat "'a list" | Nested "'a list list"

datatype group = Structured "transaction txnGroup" | Encoded "bytes txnGroup"

text \<open>
  Modelled from the spec: \<open>flattenTxnGroup\<close> and \<open>isTransactionArray\<close> of \<open>src/utils\<close>, which
  are imported by the adapters and are not among the source files. The spec has a group
  "possibly nested one level" that is flattened one level, order kept, and the caller
  picking one shape (structured or binary-encoded) for the whole call.
\<close>

fun flattenTxnGroup :: "'a txnGroup \<Rightarrow> 'a list" where
  "flattenTxnGroup (Flat xs) = xs"
| "flattenTxnGroup (Nested xss) = concat xss"

fun isTransactionArray :: "group \<Rightarrow> bool" where
  "isTransactionArray (Structured g) = True"
| "isTransactionArray (Encoded g) = False"

text \<open>
  The decoding capabilities the adapters call: \<open>algosdk.msgpackRawDecode\<close>,
  \<open>isSignedTxn\<close> (of \<open>src/utils\<close>), \<open>algosdk.decodeSignedTransaction(buf).txn\<close>,
  \<open>algosdk.decodeUnsignedTransaction\<close> and \<open>algosdk.encodeUnsignedTransaction\<close>. They are
  parameters of the model; a decoder that throws returns \<open>Inl\<close>.
\<close>

record 'o codec =
  msgpackRawDecode :: "bytes \<Rightarrow> error + 'o"
  isSignedTxn :: "'o \<Rightarrow> bool"
  decodeSignedTransaction :: "bytes \<Rightarrow> error + transaction"
  decodeUnsignedTransaction :: "bytes \<Rightarrow> error + transaction"
  encodeUnsignedTransaction :: "transaction \<Rightarrow> bytes"

text \<open>
  The probe-then-decode fragment that \<open>processEncodedTxns\<close> and \<open>signTransactions\<close> both
  contain: the flag \<open>isSigned\<close> and the decoded transaction.
\<close>

definition decodeTxn :: "'o codec \<Rightarrow> bytes \<Rightarrow> error + (bool \<times> transaction)" where
  "decodeTxn c txnBuffer =
     (case msgpackRawDecode c txnBuffer of
        Inl e \<Rightarrow> Inl e
      | Inr decodedObj \<Rightarrow>
          (case (if isSignedTxn c decodedObj
                 then decodeSignedTransaction c txnBuffer
                 else decodeUnsignedTransaction c txnBuffer) of
             Inl e \<Rightarrow> Inl e
           | Inr txn \<Rightarrow> Inr (isSignedTxn c decodedObj, txn)))"

text \<open>\<open>flatEncoded.map(...)\<close> of \<open>signTransactions\<close>: the first decoder that throws ends it.\<close>

fun decodeAll :: "'o codec \<Rightarrow> bytes list \<Rightarrow> error + (bool \<times> transaction) list" where
  "decodeAll c [] = Inr []"
| "decodeAll c (txnBuffer # rest) =
     (case decodeTxn c txnBuffer of
        Inl e \<Rightarrow> Inl e
      | Inr d \<Rightarrow> (case decodeAll c rest of Inl e \<Rightarrow> Inl e | Inr ds \<Rightarrow> Inr (d # ds)))"

section \<open>TransactionGroupProcessor: classification\<close>

text \<open>
  \<open>!indexesToSign || indexesToSign.includes(index)\<close>: an absent filter matches every index;
  an array, also the empty one, is a filter.
\<close>

definition isIndexMatch :: "int list option \<Rightarrow> nat \<Rightarrow> bool" where
  "isIndexMatch indexesToSign index =
     (case indexesToSign of None \<Rightarrow> True | Some xs \<Rightarrow> int index \<in> set xs)"

text \<open>
  \<open>processTxns\<close> and \<open>processEncodedTxns\<close> of \<open>LiquidEvmBaseWallet\<close> (unnamed/part\_000; the
  same text is in \<open>MetaMaskWallet\<close>, unnamed/part\_002): the \<open>forEach\<close> loop pushes the
  transactions to sign. \<open>addresses\<close> is \<open>this.addresses\<close> of the base class, a parameter.
\<close>

fun processTxns_from ::
  "string list \<Rightarrow> int list option \<Rightarrow> nat \<Rightarrow> transaction list \<Rightarrow> transaction list" where
  "processTxns_from addresses indexesToSign index [] = []"
| "processTxns_from addresses indexesToSign index (txn # rest) =
     (if isIndexMatch indexesToSign index \<and> sender txn \<in> set addresses then [txn] else [])
       @ processTxns_from addresses indexesToSign (Suc index) rest"

definition processTxns ::
  "string list \<Rightarrow> transaction list \<Rightarrow> int list option \<Rightarrow> transaction list" where
  "processTxns addresses txnGroup indexesToSign =
     processTxns_from addresses indexesToSign 0 txnGroup"

fun processEncodedTxns_from ::
  "'o codec \<Rightarrow> string list \<Rightarrow> int list option \<Rightarrow> nat \<Rightarrow> bytes list
     \<Rightarrow> error + transaction list" where
  "processEncodedTxns_from c addresses indexesToSign index [] = Inr []"
| "processEncodedTxns_from c addresses indexesToSign index (txnBuffer # rest) =
     (case decodeTxn c txnBuffer of
        Inl e \<Rightarrow> Inl e
      | Inr (isSigned, txn) \<Rightarrow>
          (case processEncodedTxns_from c addresses indexesToSign (Suc index) rest of
             Inl e \<Rightarrow> Inl e
           | Inr others \<Rightarrow>
               Inr ((if isIndexMatch indexesToSign index
                        \<and> (\<not> isSigned \<and> sender txn \<in> set addresses)
                     then [txn] else []) @ others)))"

definition processEncodedTxns ::
  "'o codec \<Rightarrow> string list \<Rightarrow> bytes list \<Rightarrow> int list option \<Rightarrow> error + transaction list" where
  "processEncodedTxns c addresses txnGroup indexesToSign =
     processEncodedTxns_from c addresses indexesToSign 0 txnGroup"

text \<open>
  The same two functions in packages/use-wallet/src/wallets/liquid-evm-base.ts: every
  entry is pushed, an entry not to be signed with the marker \<open>signers: []\<close>.
\<close>

record signerTransaction =
  txn :: transaction
  signers :: "string list option"

fun processTxns_pkg_from ::
  "string list \<Rightarrow> int list option \<Rightarrow> nat \<Rightarrow> transaction list \<Rightarrow> signerTransaction list" where
  "processTxns_pkg_from addresses indexesToSign index [] = []"
| "processTxns_pkg_from addresses indexesToSign index (t # rest) =
     (if isIndexMatch indexesToSign index \<and> sender t \<in> set addresses
      then \<lparr>txn = t, signers = None\<rparr>
      else \<lparr>txn = t, signers = Some []\<rparr>)
       # processTxns_pkg_from addresses indexesToSign (Suc index) rest"

definition processTxns_pkg ::
  "string list \<Rightarrow> transaction list \<Rightarrow> int list option \<Rightarrow> signerTransaction list" where
  "processTxns_pkg addresses txnGroup indexesToSign =
     processTxns_pkg_from addresses indexesToSign 0 txnGroup"

fun processEncodedTxns_pkg_from ::
  "'o codec \<Rightarrow> string list \<Rightarrow> int list option \<Rightarrow> nat \<Rightarrow> bytes list
     \<Rightarrow> error + signerTransaction list" where
  "processEncodedTxns_pkg_from c addresses indexesToSign index [] = Inr []"
| "processEncodedTxns_pkg_from c addresses indexesToSign index (txnBuffer # rest) =
     (case decodeTxn c txnBuffer of
        Inl e \<Rightarrow> Inl e
      | Inr (isSigned, t) \<Rightarrow>
          (case processEncodedTxns_pkg_from c addresses indexesToSign (Suc index) rest of
             Inl e \<Rightarrow> Inl e
           | Inr others \<Rightarrow>
               Inr ((if isIndexMatch indexesToSign index
                        \<and> (\<not> isSigned \<and> sender t \<in> set addresses)
                     then \<lparr>txn = t, signers = None\<rparr>
                     else \<lparr>txn = t, signers = Some []\<rparr>) # others)))"

definition processEncodedTxns_pkg ::
  "'o codec \<Rightarrow> string list \<Rightarrow> bytes list \<Rightarrow> int list option
     \<Rightarrow> error + signerTransaction list" where
  "processEncodedTxns_pkg c addresses txnGroup indexesToSign =
     processEncodedTxns_pkg_from c addresses indexesToSign 0 txnGroup"

text \<open>
  The eligibility rule in the words of the specification (data model, TransactionEntry):
  (a) no index filter is supplied or the index is in the filter, (b) the declared sender is
  among the addresses owned by this wallet, (c) the entry is not already signed (a
  structured entry never is).
\<close>

definition eligibleForSignature ::
  "int list option \<Rightarrow> string list \<Rightarrow> nat \<Rightarrow> bool \<Rightarrow> transaction \<Rightarrow> bool" where
  "eligibleForSignature indexFilter owned i alreadySigned t \<longleftrightarrow>
     (indexFilter = None \<or> int i \<in> set (the indexFilter))
     \<and> sender t \<in> set owned
     \<and> \<not> alreadySigned"

section \<open>Accounts, wallet state and external capabilities\<close>

text \<open>
  A \<open>WalletAccount\<close> with the metadata the adapters write and read:
  \<open>metadata.evmAddress\<close>, \<open>metadata.connectorName\<close>, \<open>metadata.connectorIcon\<close>. An absent
  field or an absent \<open>metadata\<close> object is \<open>None\<close>.
\<close>

record accountMetadata =
  evmAddress :: "string option"
  connectorName :: "string option"
  connectorIcon :: "string option"

record walletAccount =
  name :: string
  address :: string
  metadata :: "accountMetadata option"

text \<open>\<open>account.metadata?.evmAddress\<close>: the source address an account records, if any.\<close>

definition sourceAddressOf :: "walletAccount \<Rightarrow> string option" where
  "sourceAddressOf account =
     (case metadata account of None \<Rightarrow> None | Some md \<Rightarrow> evmAddress md)"

text \<open>The optional argument \<open>connectorInfo?: { name?: string; icon?: string }\<close>.\<close>

datatype connectorInfo = ConnectorInfo (ciName: "string option") (ciIcon: "string option")

text \<open>\<open>WalletState\<close> of the store: the persisted record of one wallet id.\<close>

record walletState =
  accounts :: "walletAccount list"
  activeAccount :: "walletAccount option"

text \<open>
  JavaScript truthiness of a value of type \<open>string | undefined\<close>, as in \<open>if (addr)\<close> and
  \<open>if (!evmAddress)\<close>: \<open>undefined\<close> and the empty string are falsy.
\<close>

definition truthy :: "string option \<Rightarrow> bool" where
  "truthy v = (case v of None \<Rightarrow> False | Some s \<Rightarrow> s \<noteq> [])"

text \<open>
  The Liquid EVM SDK (package \<open>liquid-accounts-evm\<close>), an opaque capability:
  \<open>getAddress({ evmAddress })\<close>, \<open>signTxn({ evmAddress, txns, signMessage })\<close> and
  \<open>getSigner({ evmAddress, signMessage })\<close>, whose signer is then called with the
  transactions and the indexes to sign. The \<open>signMessage\<close> callback only forwards to the
  provider and is part of the capability's outcome.
\<close>

record sdk =
  getAddress :: "string \<Rightarrow> error + string"
  signTxn :: "string \<Rightarrow> transaction list \<Rightarrow> error + bytes list"
  getSigner :: "string \<Rightarrow> error + (transaction list \<Rightarrow> nat list \<Rightarrow> error + bytes list)"

text \<open>The EIP-1193 provider: the outcome of \<open>provider.request\<close> for each method used.\<close>

record provider =
  eth_chainId :: "error + string"
  wallet_switchEthereumChain :: "error + unit"
  wallet_addEthereumChain :: "error + unit"
  wallet_requestPermissions :: "error + unit"
  eth_requestAccounts :: "error + string list"

text \<open>Every interaction with a collaborator is logged, in order.\<close>

datatype event =
    Request string
  | SignTxn string "transaction list"
  | GetSigner string
  | EvmSigner "transaction list" "nat list"
  | OnBeforeSign group "int list option"
  | OnAfterSign bool "string option"
  | OnConnect string string
  | SetAccountsFn "walletAccount list"
  | AddWallet walletState

text \<open>
  What a wallet adapter instance is given: the decoders, \<open>this.addresses\<close>,
  \<open>this.metadata.name\<close>, the outcome of the lazy SDK initialisation, of
  \<open>initializeProvider\<close> and of \<open>getEvmProvider\<close> (\<open>getProvider\<close> in the older adapters), the
  constant \<open>ALGORAND_CHAIN_ID_HEX\<close> of the SDK package, and the optional UI hooks of the
  instance (\<open>this.options.uiHooks\<close>) and of the manager (\<open>this.managerUIHooks\<close>). A hook
  returns \<open>Some e\<close> when it throws \<open>e\<close>.
\<close>

record 'o env =
  codec :: "'o codec"
  addresses :: "string list"
  walletName :: string
  initializeEvmSdk :: "error + sdk"
  initializeProvider :: "error option"
  getEvmProvider :: "error + provider"
  ALGORAND_CHAIN_ID_HEX :: string
  uiHooks_onConnect :: "(string \<Rightarrow> string \<Rightarrow> error option) option"
  managerUIHooks_onConnect :: "(string \<Rightarrow> string \<Rightarrow> error option) option"
  uiHooks_onBeforeSign :: "(group \<Rightarrow> int list option \<Rightarrow> error option) option"
  managerUIHooks_onBeforeSign :: "(group \<Rightarrow> int list option \<Rightarrow> error option) option"
  uiHooks_onAfterSign :: "(bool \<Rightarrow> string option \<Rightarrow> error option) option"
  managerUIHooks_onAfterSign :: "(bool \<Rightarrow> string option \<Rightarrow> error option) option"

text \<open>\<open>a ?? b\<close> on two optional hooks.\<close>

definition nullish :: "'h option \<Rightarrow> 'h option \<Rightarrow> 'h option" where
  "nullish a b = (case a of Some h \<Rightarrow> Some h | None \<Rightarrow> b)"

text \<open>
  The mutable state of an adapter instance: \<open>this.evmAddressMap\<close> (target address to
  source address), the store's record for this wallet id
  (\<open>this.store.state.wallets[this.id]\<close>) and the log of interactions.
\<close>

record wallet =
  evmAddressMap :: "string \<rightharpoonup> string"
  storeWallet :: "walletState option"
  calls :: "event list"

definition logged :: "wallet \<Rightarrow> event list \<Rightarrow> wallet" where
  "logged w evs = w\<lparr>calls := calls w @ evs\<rparr>"

section \<open>AddressBridge: derivation\<close>

text \<open>
  \<open>deriveAlgorandAccounts\<close> of unnamed/part\_000. The loop calls \<open>getAddress\<close> once per
  source address, sets the map entry and pushes the account; a \<open>getAddress\<close> that throws
  ends the call with the map entries set so far.
\<close>

definition deriveMetadata :: "string \<Rightarrow> connectorInfo option \<Rightarrow> accountMetadata" where
  "deriveMetadata evmAddr info =
     \<lparr>evmAddress = Some evmAddr,
      connectorName = (case info of None \<Rightarrow> None
                       | Some i \<Rightarrow> if truthy (ciName i) then ciName i else None),
      connectorIcon = (case info of None \<Rightarrow> None
                       | Some i \<Rightarrow> if truthy (ciIcon i) then ciIcon i else None)\<rparr>"

fun deriveLoop ::
  "sdk \<Rightarrow> string \<Rightarrow> connectorInfo option \<Rightarrow> string list \<Rightarrow> (string \<rightharpoonup> string)
     \<Rightarrow> (string \<rightharpoonup> string) \<times> (error + walletAccount list)" where
  "deriveLoop liquidEvmSdk wname info [] m = (m, Inr [])"
| "deriveLoop liquidEvmSdk wname info (evmAddr # rest) m =
     (case getAddress liquidEvmSdk evmAddr of
        Inl e \<Rightarrow> (m, Inl e)
      | Inr algorandAddress \<Rightarrow>
          (case deriveLoop liquidEvmSdk wname info rest (m(algorandAddress \<mapsto> evmAddr)) of
             (m', Inl e) \<Rightarrow> (m', Inl e)
           | (m', Inr walletAccounts) \<Rightarrow>
               (m', Inr (\<lparr>name = wname @ '' '' @ evmAddr,
                          address = algorandAddress,
                          metadata = Some (deriveMetadata evmAddr info)\<rparr>
                         # walletAccounts))))"

definition deriveAlgorandAccounts ::
  "'o env \<Rightarrow> wallet \<Rightarrow> string list \<Rightarrow> connectorInfo option
     \<Rightarrow> wallet \<times> (error + walletAccount list)" where
  "deriveAlgorandAccounts env w evmAddresses info =
     (case initializeEvmSdk env of
        Inl e \<Rightarrow> (w, Inl e)
      | Inr liquidEvmSdk \<Rightarrow>
          (case deriveLoop liquidEvmSdk (walletName env) info evmAddresses (evmAddressMap w) of
             (m', r) \<Rightarrow> (w\<lparr>evmAddressMap := m'\<rparr>, r)))"

text \<open>
  \<open>deriveAlgorandAccounts\<close> of packages/use-wallet/src/wallets/liquid-evm-base.ts: no
  connector information, the metadata is \<open>{ evmAddress }\<close>.
\<close>

fun deriveLoop_pkg ::
  "sdk \<Rightarrow> string \<Rightarrow> string list \<Rightarrow> (string \<rightharpoonup> string)
     \<Rightarrow> (string \<rightharpoonup> string) \<times> (error + walletAccount list)" where
  "deriveLoop_pkg liquidEvmSdk wname [] m = (m, Inr [])"
| "deriveLoop_pkg liquidEvmSdk wname (evmAddr # rest) m =
     (case getAddress liquidEvmSdk evmAddr of
        Inl e \<Rightarrow> (m, Inl e)
      | Inr algorandAddress \<Rightarrow>
          (case deriveLoop_pkg liquidEvmSdk wname rest (m(algorandAddress \<mapsto> evmAddr)) of
             (m', Inl e) \<Rightarrow> (m', Inl e)
           | (m', Inr walletAccounts) \<Rightarrow>
               (m', Inr (\<lparr>name = wname @ '' '' @ evmAddr,
                          address = algorandAddress,
                          metadata = Some \<lparr>evmAddress = Some evmAddr, connectorName = None,
                                           connectorIcon = None\<rparr>\<rparr>
                         # walletAccounts))))"

definition deriveAlgorandAccounts_pkg ::
  "'o env \<Rightarrow> wallet \<Rightarrow> string list \<Rightarrow> wallet \<times> (error + walletAccount list)" where
  "deriveAlgorandAccounts_pkg env w evmAddresses =
     (case initializeEvmSdk env of
        Inl e \<Rightarrow> (w, Inl e)
      | Inr liquidEvmSdk \<Rightarrow>
          (case deriveLoop_pkg liquidEvmSdk (walletName env) evmAddresses (evmAddressMap w) of
             (m', r) \<Rightarrow> (w\<lparr>evmAddressMap := m'\<rparr>, r)))"

text \<open>
  \<open>deriveAlgorandAccounts\<close> of \<open>MetaMaskWallet\<close> (unnamed/part\_002): the account is named
  by its position, \<open>Account ${i + 1}\<close>, and has no metadata.
\<close>

fun toStringNat :: "nat \<Rightarrow> string" where
  "toStringNat n =
     (if n < 10 then [char_of (48 + n)]
      else toStringNat (n div 10) @ [char_of (48 + n mod 10)])"

declare toStringNat.simps [simp del]

fun deriveLoop_mm ::
  "sdk \<Rightarrow> string \<Rightarrow> nat \<Rightarrow> string list \<Rightarrow> (string \<rightharpoonup> string)
     \<Rightarrow> (string \<rightharpoonup> string) \<times> (error + walletAccount list)" where
  "deriveLoop_mm liquidEvmSdk wname i [] m = (m, Inr [])"
| "deriveLoop_mm liquidEvmSdk wname i (evmAddr # rest) m =
     (case getAddress liquidEvmSdk evmAddr of
        Inl e \<Rightarrow> (m, Inl e)
      | Inr algorandAddress \<Rightarrow>
          (case deriveLoop_mm liquidEvmSdk wname (Suc i) rest (m(algorandAddress \<mapsto> evmAddr)) of
             (m', Inl e) \<Rightarrow> (m', Inl e)
           | (m', Inr walletAccounts) \<Rightarrow>
               (m', Inr (\<lparr>name = wname @ '' Account '' @ toStringNat (i + 1),
                          address = algorandAddress,
                          metadata = None\<rparr>
                         # walletAccounts))))"

definition deriveAlgorandAccounts_mm ::
  "'o env \<Rightarrow> wallet \<Rightarrow> string list \<Rightarrow> wallet \<times> (error + walletAccount list)" where
  "deriveAlgorandAccounts_mm env w evmAddresses =
     (case initializeEvmSdk env of
        Inl e \<Rightarrow> (w, Inl e)
      | Inr liquidEvmSdk \<Rightarrow>
          (case deriveLoop_mm liquidEvmSdk (walletName env) 0 evmAddresses (evmAddressMap w) of
             (m', r) \<Rightarrow> (w\<lparr>evmAddressMap := m'\<rparr>, r)))"

text \<open>\<open>this.evmAddressMap.get(targetAddress)\<close>: the reverse lookup, a plain map read.\<close>

definition reverseLookup :: "wallet \<Rightarrow> string \<Rightarrow> string option" where
  "reverseLookup w targetAddress = evmAddressMap w targetAddress"

section \<open>ChainGuard\<close>

text \<open>\<open>String.prototype.toLowerCase\<close> on the ASCII letters a chain id is written with.\<close>

definition toLowerChar :: "char \<Rightarrow> char" where
  "toLowerChar ch =
     (if 65 \<le> (of_char ch :: nat) \<and> (of_char ch :: nat) \<le> 90
      then char_of ((of_char ch :: nat) + 32) else ch)"

definition toLowerCase :: "string \<Rightarrow> string" where
  "toLowerCase s = map toLowerChar s"

text \<open>
  \<open>[4902, -32600, -32603].includes(switchError.code)\<close> of unnamed/part\_000 and
  \<open>switchError.code === 4902\<close> of liquid-evm-base.ts; an error without a code matches neither.
\<close>

definition unregisteredCodes :: "int list" where
  "unregisteredCodes = [4902, - 32600, - 32603]"

definition chainUnknown :: "error \<Rightarrow> bool" where
  "chainUnknown switchError =
     (case code switchError of None \<Rightarrow> False | Some c \<Rightarrow> c \<in> set unregisteredCodes)"


definition chainUnknown_pkg :: "error \<Rightarrow> bool" where
  "chainUnknown_pkg switchError = (code switchError = Some 4902)"

text \<open>
  \<open>ensureAlgorandChain\<close> of unnamed/part\_000: the requests issued, in order, and the
  outcome. The current chain id is compared case-insensitively.
\<close>

definition ensureAlgorandChain :: "'o env \<Rightarrow> event list \<times> (error + unit)" where
  "ensureAlgorandChain env =
     (case getEvmProvider env of
        Inl e \<Rightarrow> ([], Inl e)
      | Inr prov \<Rightarrow>
          (case eth_chainId prov of
             Inl e \<Rightarrow> ([Request ''eth_chainId''], Inl e)
           | Inr currentChainId \<Rightarrow>
               if toLowerCase currentChainId = toLowerCase (ALGORAND_CHAIN_ID_HEX env)
               then ([Request ''eth_chainId''], Inr ())
               else
                 (case wallet_switchEthereumChain prov of
                    Inr u \<Rightarrow>
                      ([Request ''eth_chainId'', Request ''wallet_switchEthereumChain''], Inr ())
                  | Inl switchError \<Rightarrow>
                      if chainUnknown switchError
                      then ([Request ''eth_chainId'', Request ''wallet_switchEthereumChain'',
                             Request ''wallet_addEthereumChain''],
                            (case wallet_addEthereumChain prov of
                               Inl e \<Rightarrow> Inl e | Inr u \<Rightarrow> Inr ()))
                      else ([Request ''eth_chainId'', Request ''wallet_switchEthereumChain''],
                            Inl switchError))))"

text \<open>
  \<open>ensureAlgorandChain\<close> of liquid-evm-base.ts: the chain ids are compared with \<open>===\<close> and
  only the code 4902 leads to the add request.
\<close>

definition ensureAlgorandChain_pkg :: "'o env \<Rightarrow> event list \<times> (error + unit)" where
  "ensureAlgorandChain_pkg env =
     (case getEvmProvider env of
        Inl e \<Rightarrow> ([], Inl e)
      | Inr prov \<Rightarrow>
          (case eth_chainId prov of
             Inl e \<Rightarrow> ([Request ''eth_chainId''], Inl e)
           | Inr currentChainId \<Rightarrow>
               if currentChainId = ALGORAND_CHAIN_ID_HEX env
               then ([Request ''eth_chainId''], Inr ())
               else
                 (case wallet_switchEthereumChain prov of
                    Inr u \<Rightarrow>
                      ([Request ''eth_chainId'', Request ''wallet_switchEthereumChain''], Inr ())
                  | Inl switchError \<Rightarrow>
                      if chainUnknown_pkg switchError
                      then ([Request ''eth_chainId'', Request ''wallet_switchEthereumChain'',
                             Request ''wallet_addEthereumChain''],
                            (case wallet_addEthereumChain prov of
                               Inl e \<Rightarrow> Inl e | Inr u \<Rightarrow> Inr ()))
                      else ([Request ''eth_chainId'', Request ''wallet_switchEthereumChain''],
                            Inl switchError))))"


section \<open>SigningOrchestrator\<close>

text \<open>
  An entry of the result, of type \<open>Uint8Array | null\<close>; reading \<open>signedBlobs[i]\<close> beyond the
  end of the array gives \<open>undefined\<close>.
\<close>

datatype signedBlob = Blob bytes | Null | Undefined

definition at :: "bytes list \<Rightarrow> nat \<Rightarrow> signedBlob" where
  "at signedBlobs i = (if i < length signedBlobs then Blob (signedBlobs ! i) else Undefined)"

text \<open>
  The loop that rebuilds \<open>evmAddressMap\<close> from persisted account metadata, in
  \<open>signTransactions\<close> (fallback) and in \<open>resumeWithAccounts\<close>: accounts without a truthy
  \<open>metadata.evmAddress\<close> are skipped.
\<close>

fun rebuildEvmAddressMap ::
  "walletAccount list \<Rightarrow> (string \<rightharpoonup> string) \<Rightarrow> (string \<rightharpoonup> string)" where
  "rebuildEvmAddressMap [] m = m"
| "rebuildEvmAddressMap (account # rest) m =
     rebuildEvmAddressMap rest
       (case metadata account of
          None \<Rightarrow> m
        | Some md \<Rightarrow>
            (case evmAddress md of
               None \<Rightarrow> m
             | Some addr \<Rightarrow> if addr \<noteq> [] then m(address account \<mapsto> addr) else m))"

definition noEvmAddress :: "string \<Rightarrow> error" where
  "noEvmAddress algorandAddress =
     Error None (''No EVM address found for Algorand address: '' @ algorandAddress)"

text \<open>
  Lines 265 to 286 of unnamed/part\_000: the lookup, the fallback when the lookup is falsy
  and the store has a record for this wallet, and the throw.
\<close>

definition resolveEvmAddress :: "wallet \<Rightarrow> string \<Rightarrow> wallet \<times> (error + string)" where
  "resolveEvmAddress w algorandAddress =
     (let w1 =
        (if \<not> truthy (evmAddressMap w algorandAddress)
         then (case storeWallet w of
                 None \<Rightarrow> w
               | Some ws \<Rightarrow>
                   w\<lparr>evmAddressMap := rebuildEvmAddressMap (accounts ws) (evmAddressMap w)\<rparr>)
         else w)
      in (case evmAddressMap w1 algorandAddress of
            None \<Rightarrow> (w1, Inl (noEvmAddress algorandAddress))
          | Some evmAddr \<Rightarrow>
              if evmAddr \<noteq> [] then (w1, Inr evmAddr)
              else (w1, Inl (noEvmAddress algorandAddress))))"

text \<open>
  The lookup of liquid-evm-base.ts (lines 261 to 267) and of \<open>MetaMaskWallet\<close> (lines 358 to
  364): no fallback.
\<close>

definition resolveEvmAddress_pkg :: "wallet \<Rightarrow> string \<Rightarrow> error + string" where
  "resolveEvmAddress_pkg w algorandAddress =
     (case evmAddressMap w algorandAddress of
        None \<Rightarrow> Inl (noEvmAddress algorandAddress)
      | Some evmAddr \<Rightarrow>
          if evmAddr \<noteq> [] then Inr evmAddr else Inl (noEvmAddress algorandAddress))"

text \<open>The optional hooks: the call is logged; a hook that throws gives \<open>Some e\<close>.\<close>

definition runBeforeSign ::
  "'o env \<Rightarrow> wallet \<Rightarrow> group \<Rightarrow> int list option \<Rightarrow> wallet \<times> error option" where
  "runBeforeSign env w txns indexesToSign =
     (case nullish (uiHooks_onBeforeSign env) (managerUIHooks_onBeforeSign env) of
        None \<Rightarrow> (w, None)
      | Some onBeforeSign \<Rightarrow>
          (logged w [OnBeforeSign txns indexesToSign], onBeforeSign txns indexesToSign))"

definition runAfterSign :: "'o env \<Rightarrow> wallet \<Rightarrow> bool \<Rightarrow> string option \<Rightarrow> wallet" where
  "runAfterSign env w success errorMessage =
     (case nullish (uiHooks_onAfterSign env) (managerUIHooks_onAfterSign env) of
        None \<Rightarrow> w
      | Some onAfterSign \<Rightarrow>
          (case onAfterSign success errorMessage of
             None \<Rightarrow> logged w [OnAfterSign success errorMessage]
           | Some e \<Rightarrow> logged w [OnAfterSign success errorMessage]))"

text \<open>
  Lines 241 to 258 of unnamed/part\_000: the flat decoded transactions and the transactions
  to sign.
\<close>

definition flatTxnsOf :: "'o codec \<Rightarrow> group \<Rightarrow> error + transaction list" where
  "flatTxnsOf c txnGroup =
     (case txnGroup of
        Structured g \<Rightarrow> Inr (flattenTxnGroup g)
      | Encoded g \<Rightarrow>
          (case decodeAll c (flattenTxnGroup g) of
             Inl e \<Rightarrow> Inl e
           | Inr ds \<Rightarrow> Inr (map snd ds)))"

definition txnsToSignOf ::
  "'o env \<Rightarrow> group \<Rightarrow> transaction list \<Rightarrow> int list option \<Rightarrow> error + transaction list" where
  "txnsToSignOf env txnGroup flatTxns indexesToSign =
     (case txnGroup of
        Structured g \<Rightarrow> Inr (processTxns (addresses env) flatTxns indexesToSign)
      | Encoded g \<Rightarrow>
          processEncodedTxns (codec env) (addresses env) (flattenTxnGroup g) indexesToSign)"

text \<open>Lines 313 to 322: the result array.\<close>

definition buildResult ::
  "string list \<Rightarrow> int list option \<Rightarrow> transaction list \<Rightarrow> bytes list \<Rightarrow> signedBlob list" where
  "buildResult addrs indexesToSign flatTxns signedBlobs =
     map (\<lambda>(index, t).
            if isIndexMatch indexesToSign index \<and> sender t \<in> set addrs
            then at signedBlobs index else Null)
         (enumerate 0 flatTxns)"

text \<open>
  The \<open>try\<close> block of \<open>signTransactions\<close> of unnamed/part\_000, and the whole function with
  its \<open>catch\<close>: the after-sign hook is called with \<open>false\<close> and the message, what it throws
  is dropped, and the error is thrown again.
\<close>

definition signTransactions_try ::
  "'o env \<Rightarrow> wallet \<Rightarrow> group \<Rightarrow> int list option \<Rightarrow> wallet \<times> (error + signedBlob list)" where
  "signTransactions_try env w txnGroup indexesToSign =
     (case initializeEvmSdk env of
        Inl e \<Rightarrow> (w, Inl e)
      | Inr evmSdk \<Rightarrow>
     (case flatTxnsOf (codec env) txnGroup of
        Inl e \<Rightarrow> (w, Inl e)
      | Inr flatTxns \<Rightarrow>
     (case txnsToSignOf env txnGroup flatTxns indexesToSign of
        Inl e \<Rightarrow> (w, Inl e)
      | Inr [] \<Rightarrow> (w, Inr (map (\<lambda>t. Null) flatTxns))
      | Inr (firstTxn # others) \<Rightarrow>
     (case resolveEvmAddress w (sender firstTxn) of
        (w1, Inl e) \<Rightarrow> (w1, Inl e)
      | (w1, Inr evmAddr) \<Rightarrow>
     (case runBeforeSign env w1 txnGroup indexesToSign of
        (w2, Some e) \<Rightarrow> (w2, Inl e)
      | (w2, None) \<Rightarrow>
     (case ensureAlgorandChain env of
        (evs, Inl e) \<Rightarrow> (logged w2 evs, Inl e)
      | (evs, Inr u) \<Rightarrow>
     (case signTxn evmSdk evmAddr flatTxns of
        Inl e \<Rightarrow> (logged w2 (evs @ [SignTxn evmAddr flatTxns]), Inl e)
      | Inr signedBlobs \<Rightarrow>
          (runAfterSign env (logged w2 (evs @ [SignTxn evmAddr flatTxns])) True None,
           Inr (buildResult (addresses env) indexesToSign flatTxns signedBlobs)))))))))"

definition signTransactions ::
  "'o env \<Rightarrow> wallet \<Rightarrow> group \<Rightarrow> int list option \<Rightarrow> wallet \<times> (error + signedBlob list)" where
  "signTransactions env w txnGroup indexesToSign =
     (case signTransactions_try env w txnGroup indexesToSign of
        (w', Inr result) \<Rightarrow> (w', Inr result)
      | (w', Inl err) \<Rightarrow> (runAfterSign env w' False (Some (message err)), Inl err))"

text \<open>
  \<open>signTransactions\<close> of \<open>MetaMaskWallet\<close> (unnamed/part\_002): the same normalisation,
  classification and result array, no fallback, no hooks and no chain guard; its \<open>catch\<close>
  only logs and throws again.
\<close>

definition signTransactions_mm ::
  "'o env \<Rightarrow> wallet \<Rightarrow> group \<Rightarrow> int list option \<Rightarrow> wallet \<times> (error + signedBlob list)" where
  "signTransactions_mm env w txnGroup indexesToSign =
     (case initializeEvmSdk env of
        Inl e \<Rightarrow> (w, Inl e)
      | Inr evmSdk \<Rightarrow>
     (case flatTxnsOf (codec env) txnGroup of
        Inl e \<Rightarrow> (w, Inl e)
      | Inr flatTxns \<Rightarrow>
     (case txnsToSignOf env txnGroup flatTxns indexesToSign of
        Inl e \<Rightarrow> (w, Inl e)
      | Inr [] \<Rightarrow> (w, Inr (map (\<lambda>t. Null) flatTxns))
      | Inr (firstTxn # others) \<Rightarrow>
     (case resolveEvmAddress_pkg w (sender firstTxn) of
        Inl e \<Rightarrow> (w, Inl e)
      | Inr evmAddr \<Rightarrow>
     (case signTxn evmSdk evmAddr flatTxns of
        Inl e \<Rightarrow> (logged w [SignTxn evmAddr flatTxns], Inl e)
      | Inr signedBlobs \<Rightarrow>
          (logged w [SignTxn evmAddr flatTxns],
           Inr (buildResult (addresses env) indexesToSign flatTxns signedBlobs)))))))"

text \<open>
  \<open>signTransactions\<close> of liquid-evm-base.ts. The classified list holds every entry; the
  source address is looked up for \<open>txnsToSign[0]\<close>, whose read throws a \<open>TypeError\<close> on an
  empty list (the engine's message is not modelled); the signer is called with all
  transactions and the indexes without the \<open>signers\<close> marker; the result takes the signed
  blobs in order.
\<close>

definition txnsToSignOf_pkg ::
  "'o env \<Rightarrow> group \<Rightarrow> int list option \<Rightarrow> error + signerTransaction list" where
  "txnsToSignOf_pkg env txnGroup indexesToSign =
     (case txnGroup of
        Structured g \<Rightarrow> Inr (processTxns_pkg (addresses env) (flattenTxnGroup g) indexesToSign)
      | Encoded g \<Rightarrow>
          processEncodedTxns_pkg (codec env) (addresses env) (flattenTxnGroup g) indexesToSign)"

definition typeErrorFirstTxn :: error where
  "typeErrorFirstTxn = Error None ''TypeError: firstTxn is undefined''"

definition signIndexesOf :: "signerTransaction list \<Rightarrow> nat list" where
  "signIndexesOf txnsToSign =
     map fst (filter (\<lambda>(i, t). signers t = None) (enumerate 0 txnsToSign))"

fun buildResult_pkg ::
  "nat list \<Rightarrow> bytes list \<Rightarrow> nat \<Rightarrow> nat \<Rightarrow> signerTransaction list \<Rightarrow> signedBlob list" where
  "buildResult_pkg signIndexes signedBlobs signedIdx index [] = []"
| "buildResult_pkg signIndexes signedBlobs signedIdx index (t # rest) =
     (if index \<in> set signIndexes
      then at signedBlobs signedIdx
             # buildResult_pkg signIndexes signedBlobs (Suc signedIdx) (Suc index) rest
      else Null # buildResult_pkg signIndexes signedBlobs signedIdx (Suc index) rest)"

definition signTransactions_pkg_try ::
  "'o env \<Rightarrow> wallet \<Rightarrow> group \<Rightarrow> int list option \<Rightarrow> wallet \<times> (error + signedBlob list)" where
  "signTransactions_pkg_try env w txnGroup indexesToSign =
     (case initializeEvmSdk env of
        Inl e \<Rightarrow> (w, Inl e)
      | Inr liquidEvmSdk \<Rightarrow>
     (case txnsToSignOf_pkg env txnGroup indexesToSign of
        Inl e \<Rightarrow> (w, Inl e)
      | Inr [] \<Rightarrow> (w, Inl typeErrorFirstTxn)
      | Inr (firstTxn # others) \<Rightarrow>
     (case resolveEvmAddress_pkg w (sender (txn firstTxn)) of
        Inl e \<Rightarrow> (w, Inl e)
      | Inr evmAddr \<Rightarrow>
     (case runBeforeSign env w
             (Encoded (Flat (map (\<lambda>t. encodeUnsignedTransaction (codec env) (txn t))
                               (firstTxn # others))))
             indexesToSign of
        (w2, Some e) \<Rightarrow> (w2, Inl e)
      | (w2, None) \<Rightarrow>
     (case ensureAlgorandChain_pkg env of
        (evs, Inl e) \<Rightarrow> (logged w2 evs, Inl e)
      | (evs, Inr u) \<Rightarrow>
     (case getSigner liquidEvmSdk evmAddr of
        Inl e \<Rightarrow> (logged w2 (evs @ [GetSigner evmAddr]), Inl e)
      | Inr evmSigner \<Rightarrow>
     (case evmSigner (map txn (firstTxn # others)) (signIndexesOf (firstTxn # others)) of
        Inl e \<Rightarrow>
          (logged w2 (evs @ [GetSigner evmAddr,
                             EvmSigner (map txn (firstTxn # others))
                                       (signIndexesOf (firstTxn # others))]),
           Inl e)
      | Inr signedBlobs \<Rightarrow>
          (runAfterSign env
             (logged w2 (evs @ [GetSigner evmAddr,
                                EvmSigner (map txn (firstTxn # others))
                                          (signIndexesOf (firstTxn # others))]))
             True None,
           Inr (buildResult_pkg (signIndexesOf (firstTxn # others)) signedBlobs 0 0
                  (firstTxn # others))))))))))"

definition signTransactions_pkg ::
  "'o env \<Rightarrow> wallet \<Rightarrow> group \<Rightarrow> int list option \<Rightarrow> wallet \<times> (error + signedBlob list)" where
  "signTransactions_pkg env w txnGroup indexesToSign =
     (case signTransactions_pkg_try env w txnGroup indexesToSign of
        (w', Inr result) \<Rightarrow> (w', Inr result)
      | (w', Inl err) \<Rightarrow> (runAfterSign env w' False (Some (message err)), Inl err))"

text \<open>Whether a log holds a call of the batched signature capability.\<close>

fun isSignatureCall :: "event \<Rightarrow> bool" where
  "isSignatureCall (SignTxn a ts) = True"
| "isSignatureCall (GetSigner a) = True"
| "isSignatureCall (EvmSigner ts is) = True"
| "isSignatureCall ev = False"

section \<open>SessionReconciler\<close>

text \<open>
  Modelled from the spec: \<open>compareAccounts\<close> of \<open>src/utils\<close>, which is not among the source
  files. The spec compares the derived set against the persisted set "by address-set
  equality (order-independent)".
\<close>

definition compareAccounts :: "walletAccount list \<Rightarrow> walletAccount list \<Rightarrow> bool" where
  "compareAccounts as bs \<longleftrightarrow> set (map address as) = set (map address bs)"

text \<open>
  \<open>resumeWithAccounts\<close> of unnamed/part\_000: \<open>setAccountsFn\<close> is always called once the
  accounts are derived. The call of the callback is logged as \<open>SetAccountsFn\<close>.
\<close>

definition resumeWithAccounts ::
  "'o env \<Rightarrow> wallet \<Rightarrow> string list \<Rightarrow> connectorInfo option \<Rightarrow> wallet \<times> (error + unit)" where
  "resumeWithAccounts env w evmAddresses info =
     (case storeWallet w of
        None \<Rightarrow> (w, Inr ())
      | Some ws \<Rightarrow>
          (case deriveAlgorandAccounts env
                  (w\<lparr>evmAddressMap := rebuildEvmAddressMap (accounts ws) (evmAddressMap w)\<rparr>)
                  evmAddresses info of
             (w2, Inl e) \<Rightarrow> (w2, Inl e)
           | (w2, Inr walletAccounts) \<Rightarrow>
               (logged w2 [SetAccountsFn walletAccounts], Inr ())))"

text \<open>
  \<open>resumeWithAccounts\<close> of liquid-evm-base.ts: \<open>setAccountsFn\<close> is called inside
  \<open>if (!match)\<close> only.
\<close>

definition resumeWithAccounts_pkg ::
  "'o env \<Rightarrow> wallet \<Rightarrow> string list \<Rightarrow> wallet \<times> (error + unit)" where
  "resumeWithAccounts_pkg env w evmAddresses =
     (case storeWallet w of
        None \<Rightarrow> (w, Inr ())
      | Some ws \<Rightarrow>
          (case deriveAlgorandAccounts_pkg env
                  (w\<lparr>evmAddressMap := rebuildEvmAddressMap (accounts ws) (evmAddressMap w)\<rparr>)
                  evmAddresses of
             (w2, Inl e) \<Rightarrow> (w2, Inl e)
           | (w2, Inr walletAccounts) \<Rightarrow>
               if \<not> compareAccounts walletAccounts (accounts ws)
               then (logged w2 [SetAccountsFn walletAccounts], Inr ())
               else (w2, Inr ())))"

section \<open>Connect\<close>








section \<open>Concrete collaborators for the examples\<close>

text \<open>
  A toy wire format: the first byte says whether the buffer is a signed wrapper, the
  second names the sender, the rest is the body.
\<close>

definition exampleSender :: "nat \<Rightarrow> string" where
  "exampleSender n = (if n = 0 then ''ALICE'' else ''BOB'')"

definition exampleDecode :: "bytes \<Rightarrow> error + transaction" where
  "exampleDecode buf =
     (case buf of
        tag # who # payload \<Rightarrow> Inr (Transaction (exampleSender who) payload)
      | _ \<Rightarrow> Inl (Error None ''truncated''))"

definition exampleCodec :: "bool codec" where
  "exampleCodec =
     \<lparr>msgpackRawDecode =
        (\<lambda>buf. case buf of [] \<Rightarrow> Inl (Error None ''empty'') | tag # payload \<Rightarrow> Inr (tag = 1)),
      isSignedTxn = (\<lambda>obj. obj),
      decodeSignedTransaction = exampleDecode,
      decodeUnsignedTransaction = exampleDecode,
      encodeUnsignedTransaction = (\<lambda>t. 0 # (if sender t = ''ALICE'' then 0 else 1) # body t)\<rparr>"

text \<open>
  An SDK that derives \<open>ALICE\<close> from \<open>0xA\<close> and \<open>BOB\<close> from \<open>0xB\<close>, whose \<open>signTxn\<close> returns one
  blob per transaction and whose signer returns one blob per index to sign.
\<close>

definition exampleSdk :: sdk where
  "exampleSdk =
     \<lparr>getAddress =
        (\<lambda>evmAddr. if evmAddr = ''0xA'' then Inr ''ALICE''
                   else if evmAddr = ''0xB'' then Inr ''BOB''
                   else Inl (Error None ''not an EVM address'')),
      signTxn = (\<lambda>evmAddr txns. Inr (map (\<lambda>t. 9 # body t) txns)),
      getSigner =
        (\<lambda>evmAddr. Inr (\<lambda>txns indexes. Inr (map (\<lambda>i. 9 # body (txns ! i)) indexes)))\<rparr>"

definition exampleProvider :: provider where
  "exampleProvider =
     \<lparr>eth_chainId = Inr ''0x1'',
      wallet_switchEthereumChain = Inl (Error (Some 4902) ''Unrecognized chain ID''),
      wallet_addEthereumChain = Inr (),
      wallet_requestPermissions = Inl (Error None ''unsupported''),
      eth_requestAccounts = Inr [''0xA'', ''0xB'']\<rparr>"

text \<open>
  A wallet that owns \<open>ALICE\<close>, with an after-sign hook that throws and no other hook.
\<close>

definition exampleEnv :: "bool env" where
  "exampleEnv =
     \<lparr>codec = exampleCodec,
      addresses = [''ALICE''],
      walletName = ''Rainbow'',
      initializeEvmSdk = Inr exampleSdk,
      initializeProvider = None,
      getEvmProvider = Inr exampleProvider,
      ALGORAND_CHAIN_ID_HEX = ''0x1040'',
      uiHooks_onConnect = None,
      managerUIHooks_onConnect = None,
      uiHooks_onBeforeSign = None,
      managerUIHooks_onBeforeSign = None,
      uiHooks_onAfterSign = Some (\<lambda>success errorMessage. Some (Error None ''hook failed'')),
      managerUIHooks_onAfterSign = None\<rparr>"

text \<open>The same collaborators behind the MetaMask adapter.\<close>

definition metaMaskEnv :: "bool env" where
  "metaMaskEnv = exampleEnv\<lparr>walletName := ''MetaMask''\<rparr>"

text \<open>
  The same collaborators behind a provider that reports the target chain id with an
  upper-case hexadecimal prefix.
\<close>

definition upperCaseEnv :: "bool env" where
  "upperCaseEnv =
     exampleEnv\<lparr>getEvmProvider := Inr (exampleProvider\<lparr>eth_chainId := Inr ''0X1040''\<rparr>)\<rparr>"

definition aliceAccount :: walletAccount where
  "aliceAccount =
     \<lparr>name = ''Rainbow 0xA'', address = ''ALICE'',
      metadata = Some \<lparr>evmAddress = Some ''0xA'', connectorName = Some ''Old name'',
                       connectorIcon = None\<rparr>\<rparr>"

text \<open>A fresh instance: empty map, no persisted session, empty log.\<close>

definition freshWallet :: wallet where
  "freshWallet = \<lparr>evmAddressMap = Map.empty, storeWallet = None, calls = []\<rparr>"

text \<open>An instance after a reload: the store has the session, the map is still empty.\<close>

definition reloadedWallet :: wallet where
  "reloadedWallet =
     \<lparr>evmAddressMap = Map.empty,
      storeWallet = Some \<lparr>accounts = [aliceAccount], activeAccount = Some aliceAccount\<rparr>,
      calls = []\<rparr>"

text \<open>An instance after \<open>connect\<close>: the map knows \<open>ALICE\<close>.\<close>

definition connectedWallet :: wallet where
  "connectedWallet =
     \<lparr>evmAddressMap = [''ALICE'' \<mapsto> ''0xA''],
      storeWallet = Some \<lparr>accounts = [aliceAccount], activeAccount = Some aliceAccount\<rparr>,
      calls = []\<rparr>"

section \<open>Classification follows the eligibility rule\<close>

lemmas example_defs =
  exampleCodec_def exampleDecode_def exampleSender_def exampleSdk_def exampleProvider_def
  exampleEnv_def metaMaskEnv_def upperCaseEnv_def aliceAccount_def freshWallet_def
  reloadedWallet_def connectedWallet_def

lemma isIndexMatch_spec:
  "isIndexMatch f i \<longleftrightarrow> (f = None \<or> int i \<in> set (the f))"
  by (cases f) (simp_all add: isIndexMatch_def)

lemma processTxns_from_filter:
  "processTxns_from A f k txns =
     map snd (filter (\<lambda>(i, t). eligibleForSignature f A i False t) (enumerate k txns))"
  by (induction txns arbitrary: k)
     (simp_all add: eligibleForSignature_def isIndexMatch_spec)

lemma processEncodedTxns_from_filter:
  "decodeAll c bufs = Inr ds \<Longrightarrow>
   processEncodedTxns_from c A f k bufs =
     Inr (map (\<lambda>(i, s, t). t)
            (filter (\<lambda>(i, s, t). eligibleForSignature f A i s t) (enumerate k ds)))"
proof (induction bufs arbitrary: k ds)
  case Nil
  then show ?case by simp
next
  case (Cons b bufs)
  from Cons.prems obtain d ds' where d: "decodeTxn c b = Inr d"
    and ds': "decodeAll c bufs = Inr ds'" and ds: "ds = d # ds'"
    by (auto split: sum.splits)
  obtain s t where st: "d = (s, t)" by (cases d)
  show ?case
    using Cons.IH [OF ds', of "Suc k"] d
    by (simp add: ds st eligibleForSignature_def isIndexMatch_spec)
qed

lemma processEncodedTxns_from_error:
  "decodeAll c bufs = Inl e \<Longrightarrow> processEncodedTxns_from c A f k bufs = Inl e"
  by (induction bufs arbitrary: k) (auto split: sum.splits)

text \<open>
  Claim C3. An entry of the normalized group is classified eligible exactly when (a) no
  index filter is supplied or its index is in the filter, (b) its declared sender is among
  the wallet's addresses, and (c) on binary-encoded input, it does not decode as an
  already-signed wrapper: the transactions \<open>processTxns\<close> returns are those at the
  eligible positions, in order, and so are those of \<open>processEncodedTxns\<close> whenever every
  buffer decodes (\<open>ds\<close> holds, per buffer, the already-signed flag and the transaction).
\<close>

theorem classification_is_eligibility:
  "processTxns owned txns indexFilter =
     map snd (filter (\<lambda>(i, t). eligibleForSignature indexFilter owned i False t)
                (enumerate 0 txns))
   \<and> (decodeAll c bufs = Inr ds \<longrightarrow>
        processEncodedTxns c owned bufs indexFilter =
          Inr (map (\<lambda>(i, alreadySigned, t). t)
                 (filter (\<lambda>(i, alreadySigned, t).
                            eligibleForSignature indexFilter owned i alreadySigned t)
                    (enumerate 0 ds))))"
  by (simp add: processTxns_def processEncodedTxns_def processTxns_from_filter
        processEncodedTxns_from_filter)

theorem classification_is_eligibility_witness:
  "processTxns [''ALICE''] [Transaction ''ALICE'' [1], Transaction ''BOB'' [2],
       Transaction ''ALICE'' [3]] (Some [0, 1])
     = [Transaction ''ALICE'' [1]]
   \<and> decodeAll exampleCodec [[1, 0, 7], [0, 0, 8], [0, 1, 9]]
       = Inr [(True, Transaction ''ALICE'' [7]), (False, Transaction ''ALICE'' [8]),
              (False, Transaction ''BOB'' [9])]
   \<and> processEncodedTxns exampleCodec [''ALICE''] [[1, 0, 7], [0, 0, 8], [0, 1, 9]] None
       = Inr [Transaction ''ALICE'' [8]]"
proof -
  have dec: "decodeAll exampleCodec [[1, 0, 7], [0, 0, 8], [0, 1, 9]]
       = Inr [(True, Transaction ''ALICE'' [7]), (False, Transaction ''ALICE'' [8]),
              (False, Transaction ''BOB'' [9])]"
    by (simp add: decodeTxn_def exampleCodec_def exampleDecode_def exampleSender_def)
  from classification_is_eligibility
         [of "[''ALICE'']" "[Transaction ''ALICE'' [1], Transaction ''BOB'' [2],
              Transaction ''ALICE'' [3]]" "Some [0, 1]" exampleCodec
             "[[1, 0, 7], [0, 0, 8], [0, 1, 9]]" _]
  have a: "processTxns [''ALICE''] [Transaction ''ALICE'' [1], Transaction ''BOB'' [2],
       Transaction ''ALICE'' [3]] (Some [0, 1]) = [Transaction ''ALICE'' [1]]"
    by (simp add: eligibleForSignature_def)
  from classification_is_eligibility
         [of "[''ALICE'']" "[]" None exampleCodec "[[1, 0, 7], [0, 0, 8], [0, 1, 9]]"] dec
  have b: "processEncodedTxns exampleCodec [''ALICE''] [[1, 0, 7], [0, 0, 8], [0, 1, 9]] None
       = Inr [Transaction ''ALICE'' [8]]"
    by (simp add: eligibleForSignature_def)
  from a dec b show ?thesis by simp
qed

section \<open>The chain guard issues the requests it should\<close>












section \<open>Derivation and the address map\<close>

lemma deriveLoop_result:
  "deriveLoop k wn info evms m = (m', Inr accts) \<Longrightarrow>
     map (\<lambda>a. Inr (address a)) accts = map (getAddress k) evms
   \<and> map sourceAddressOf accts = map Some evms
   \<and> map name accts = map (\<lambda>s. wn @ '' '' @ s) evms
   \<and> map metadata accts = map (\<lambda>s. Some (deriveMetadata s info)) evms"
  by (induction evms arbitrary: m m' accts)
     (auto simp: sourceAddressOf_def deriveMetadata_def split: sum.splits prod.splits)

lemma deriveLoop_pkg_eq:
  "deriveLoop_pkg k wn evms m = deriveLoop k wn None evms m"
  by (induction evms arbitrary: m) (auto simp: deriveMetadata_def split: sum.splits prod.splits)

lemma deriveAlgorandAccounts_pkg_eq:
  "deriveAlgorandAccounts_pkg env w evms = deriveAlgorandAccounts env w evms None"
  by (simp add: deriveAlgorandAccounts_pkg_def deriveAlgorandAccounts_def deriveLoop_pkg_eq
        split: sum.splits)


lemma deriveLoop_succeeds:
  "\<forall>s \<in> set evms. \<exists>a. getAddress k s = Inr a \<Longrightarrow>
     \<exists>m' accts. deriveLoop k wn info evms m = (m', Inr accts)"
proof (induction evms arbitrary: m)
  case Nil
  then show ?case by simp
next
  case (Cons s evms)
  then obtain a where a: "getAddress k s = Inr a" by auto
  from Cons obtain m' accts where
    "deriveLoop k wn info evms (m(a \<mapsto> s)) = (m', Inr accts)"
    by (metis list.set_intros(2))
  with a show ?case by simp
qed

lemma deriveLoop_mm_succeeds:
  "\<forall>s \<in> set evms. \<exists>a. getAddress k s = Inr a \<Longrightarrow>
     \<exists>m' accts. deriveLoop_mm k wn i evms m = (m', Inr accts)"
proof (induction evms arbitrary: m i)
  case Nil
  then show ?case by simp
next
  case (Cons s evms)
  then obtain a where a: "getAddress k s = Inr a" by auto
  from Cons obtain m' accts where
    "deriveLoop_mm k wn (Suc i) evms (m(a \<mapsto> s)) = (m', Inr accts)"
    by (metis list.set_intros(2))
  with a show ?case by simp
qed

lemma deriveAlgorandAccounts_frame:
  "deriveAlgorandAccounts env w evms info = (w', r) \<Longrightarrow>
     calls w' = calls w \<and> storeWallet w' = storeWallet w"
  by (auto simp: deriveAlgorandAccounts_def split: sum.splits prod.splits)

lemma deriveAlgorandAccounts_mm_frame:
  "deriveAlgorandAccounts_mm env w evms = (w', r) \<Longrightarrow>
     calls w' = calls w \<and> storeWallet w' = storeWallet w"
  by (auto simp: deriveAlgorandAccounts_mm_def split: sum.splits prod.splits)

text \<open>
  Claim C6. When the SDK is initialised and derives \<open>target\<close> from the source address \<open>s\<close>,
  \<open>deriveAlgorandAccounts\<close> on \<open>[s]\<close> returns one account with that target address, the
  reverse lookup of the account's address in the resulting map gives \<open>s\<close>, and deriving
  \<open>[s]\<close> again from the resulting state returns the same account and leaves the state as
  it is: the same map entry is written again, without error. (The SDK's \<open>getAddress\<close> is a
  function of the source address: the derivation capability is taken to be deterministic.)
\<close>

theorem derive_then_reverse_lookup:
  assumes "initializeEvmSdk env = Inr liquidEvmSdk"
    and "getAddress liquidEvmSdk s = Inr target"
  shows "\<exists>w' account.
           deriveAlgorandAccounts env w [s] info = (w', Inr [account])
         \<and> address account = target
         \<and> reverseLookup w' (address account) = Some s
         \<and> deriveAlgorandAccounts env w' [s] info = (w', Inr [account])"
  using assms by (simp add: deriveAlgorandAccounts_def reverseLookup_def)

theorem derive_then_reverse_lookup_witness:
  "initializeEvmSdk exampleEnv = Inr exampleSdk
   \<and> getAddress exampleSdk ''0xA'' = Inr ''ALICE''
   \<and> reverseLookup (fst (deriveAlgorandAccounts exampleEnv freshWallet [''0xA''] None)) ''ALICE''
       = Some ''0xA''
   \<and> deriveAlgorandAccounts exampleEnv
        (fst (deriveAlgorandAccounts exampleEnv freshWallet [''0xA''] None)) [''0xA''] None
       = deriveAlgorandAccounts exampleEnv freshWallet [''0xA''] None"
proof -
  have i: "initializeEvmSdk exampleEnv = Inr exampleSdk" by (simp add: exampleEnv_def)
  have g: "getAddress exampleSdk ''0xA'' = Inr ''ALICE''" by (simp add: exampleSdk_def)
  from derive_then_reverse_lookup [OF i g, of freshWallet None]
  obtain w' account where
    "deriveAlgorandAccounts exampleEnv freshWallet [''0xA''] None = (w', Inr [account])"
    "address account = ''ALICE''"
    "reverseLookup w' (address account) = Some ''0xA''"
    "deriveAlgorandAccounts exampleEnv w' [''0xA''] None = (w', Inr [account])"
    by blast
  with i g show ?thesis by simp
qed

section \<open>Connect returns the derived accounts in order\<close>



lemma deriveAlgorandAccounts_result:
  assumes "initializeEvmSdk env = Inr k"
    and "deriveAlgorandAccounts env w evms info = (w', Inr accts)"
  shows "map (\<lambda>a. Inr (address a)) accts = map (getAddress k) evms"
    and "map sourceAddressOf accts = map Some evms"
    and "map metadata accts = map (\<lambda>s. Some (deriveMetadata s info)) evms"
    and "length accts = length evms"
proof -
  from assms obtain m' where
    d: "deriveLoop k (walletName env) info evms (evmAddressMap w) = (m', Inr accts)"
    by (auto simp: deriveAlgorandAccounts_def split: prod.splits)
  from deriveLoop_result [OF d]
  show "map (\<lambda>a. Inr (address a)) accts = map (getAddress k) evms"
    and s: "map sourceAddressOf accts = map Some evms"
    and "map metadata accts = map (\<lambda>s. Some (deriveMetadata s info)) evms"
    by simp_all
  from s show "length accts = length evms" by (rule map_eq_imp_length_eq)
qed









section \<open>Session resume\<close>

lemma deriveAlgorandAccounts_succeeds:
  assumes "initializeEvmSdk env = Inr k"
    and "\<forall>s \<in> set evms. \<exists>a. getAddress k s = Inr a"
  shows "\<exists>w' accts. deriveAlgorandAccounts env w evms info = (w', Inr accts)"
proof -
  from deriveLoop_succeeds [OF assms(2)] obtain m' accts where
    "deriveLoop k (walletName env) info evms (evmAddressMap w) = (m', Inr accts)"
    by blast
  with assms(1) show ?thesis by (simp add: deriveAlgorandAccounts_def)
qed

lemma map_Inr_address_eq:
  "map (\<lambda>a. Inr (address a) :: error + string) xs = map (\<lambda>a. Inr (address a)) ys \<Longrightarrow>
     map address xs = map address ys"
  by (induction xs arbitrary: ys) auto

lemma compareAccounts_addresses:
  "map address as = map address bs \<Longrightarrow> compareAccounts as cs = compareAccounts bs cs"
  by (simp add: compareAccounts_def)

text \<open>
  Claim C8, as amended. On a resume with a persisted session, when the SDK derives an
  address for every current source address: \<open>resumeWithAccounts\<close> of unnamed/part\_000
  always calls \<open>setAccountsFn\<close> with the freshly derived accounts, which carry the
  connector name and icon passed in, whether or not the address set has changed;
  \<open>resumeWithAccounts\<close> of liquid-evm-base.ts, whose accounts carry no connector metadata,
  calls \<open>setAccountsFn\<close> only when the address sets differ and leaves the persisted
  accounts untouched otherwise.
\<close>

theorem resume_signals_fresh_accounts:
  assumes "storeWallet w = Some ws"
    and "initializeEvmSdk env = Inr liquidEvmSdk"
    and "\<forall>s \<in> set evms. \<exists>a. getAddress liquidEvmSdk s = Inr a"
  shows
    "\<exists>fresh.
        snd (resumeWithAccounts env w evms info) = Inr ()
      \<and> calls (fst (resumeWithAccounts env w evms info)) = calls w @ [SetAccountsFn fresh]
      \<and> map (\<lambda>a. Inr (address a)) fresh = map (getAddress liquidEvmSdk) evms
      \<and> map metadata fresh = map (\<lambda>s. Some (deriveMetadata s info)) evms
      \<and> (\<exists>fresh'.
            map address fresh' = map address fresh
          \<and> snd (resumeWithAccounts_pkg env w evms) = Inr ()
          \<and> calls (fst (resumeWithAccounts_pkg env w evms)) =
              calls w @ (if compareAccounts fresh (accounts ws) then []
                         else [SetAccountsFn fresh']))"
proof -
  let ?w1 = "w\<lparr>evmAddressMap := rebuildEvmAddressMap (accounts ws) (evmAddressMap w)\<rparr>"
  from deriveAlgorandAccounts_succeeds [OF assms(2,3)] obtain w2 fresh where
    d: "deriveAlgorandAccounts env ?w1 evms info = (w2, Inr fresh)" by blast
  from deriveAlgorandAccounts_succeeds [OF assms(2,3)] obtain w3 fresh' where
    d': "deriveAlgorandAccounts env ?w1 evms None = (w3, Inr fresh')" by blast
  from deriveAlgorandAccounts_frame [OF d] have c2: "calls w2 = calls w" by simp
  from deriveAlgorandAccounts_frame [OF d'] have c3: "calls w3 = calls w" by simp
  note r = deriveAlgorandAccounts_result [OF assms(2) d]
  note r' = deriveAlgorandAccounts_result [OF assms(2) d']
  from r(1) r'(1) have "map (\<lambda>a. Inr (address a) :: error + string) fresh'
      = map (\<lambda>a. Inr (address a)) fresh" by simp
  then have same: "map address fresh' = map address fresh"
    by (rule map_Inr_address_eq)
  have a: "snd (resumeWithAccounts env w evms info) = Inr ()"
    "calls (fst (resumeWithAccounts env w evms info)) = calls w @ [SetAccountsFn fresh]"
    using assms(1) d c2 by (simp_all add: resumeWithAccounts_def logged_def)
  have b: "snd (resumeWithAccounts_pkg env w evms) = Inr ()"
    "calls (fst (resumeWithAccounts_pkg env w evms)) =
       calls w @ (if compareAccounts fresh (accounts ws) then [] else [SetAccountsFn fresh'])"
    using assms(1) d' c3 compareAccounts_addresses [OF same, of "accounts ws"]
    by (simp_all add: resumeWithAccounts_pkg_def deriveAlgorandAccounts_pkg_eq logged_def)
  from a b r(1) r(3) same show ?thesis by blast
qed

lemma resume_example:
  "resumeWithAccounts exampleEnv reloadedWallet [''0xA'']
       (Some (ConnectorInfo (Some ''New name'') None)) = (w', r) \<Longrightarrow>
   calls w' =
       [SetAccountsFn
          [\<lparr>name = ''Rainbow 0xA'', address = ''ALICE'',
            metadata = Some \<lparr>evmAddress = Some ''0xA'', connectorName = Some ''New name'',
                             connectorIcon = None\<rparr>\<rparr>]] \<and> r = Inr ()"
  by (auto simp add: resumeWithAccounts_def example_defs deriveAlgorandAccounts_def
        deriveMetadata_def truthy_def logged_def)

lemma resume_pkg_example:
  "resumeWithAccounts_pkg exampleEnv reloadedWallet [''0xA''] = (w', r) \<Longrightarrow>
     calls w' = [] \<and> r = Inr ()"
  by (auto simp add: resumeWithAccounts_pkg_def example_defs deriveAlgorandAccounts_pkg_def
        compareAccounts_def logged_def)

theorem resume_signals_fresh_accounts_witness:
  "storeWallet reloadedWallet
     = Some \<lparr>accounts = [aliceAccount], activeAccount = Some aliceAccount\<rparr>
   \<and> initializeEvmSdk exampleEnv = Inr exampleSdk
   \<and> getAddress exampleSdk ''0xA'' = Inr ''ALICE''
   \<and> calls (fst (resumeWithAccounts exampleEnv reloadedWallet [''0xA'']
                    (Some (ConnectorInfo (Some ''New name'') None)))) =
       [SetAccountsFn
          [\<lparr>name = ''Rainbow 0xA'', address = ''ALICE'',
            metadata = Some \<lparr>evmAddress = Some ''0xA'', connectorName = Some ''New name'',
                             connectorIcon = None\<rparr>\<rparr>]]
   \<and> compareAccounts
         [\<lparr>name = ''Rainbow 0xA'', address = ''ALICE'',
           metadata = Some \<lparr>evmAddress = Some ''0xA'', connectorName = Some ''New name'',
                            connectorIcon = None\<rparr>\<rparr>]
         [aliceAccount]
   \<and> calls (fst (resumeWithAccounts_pkg exampleEnv reloadedWallet [''0xA''])) = []"
proof -
  let ?info = "Some (ConnectorInfo (Some ''New name'') None)"
  let ?ws = "\<lparr>accounts = [aliceAccount], activeAccount = Some aliceAccount\<rparr>"
  have s: "storeWallet reloadedWallet = Some ?ws" by (simp add: reloadedWallet_def)
  have i: "initializeEvmSdk exampleEnv = Inr exampleSdk" by (simp add: exampleEnv_def)
  have g: "\<forall>s \<in> set [''0xA'']. \<exists>a. getAddress exampleSdk s = Inr a"
    by (simp add: exampleSdk_def)
  have e: "calls (fst (resumeWithAccounts exampleEnv reloadedWallet [''0xA''] ?info)) =
       [SetAccountsFn
          [\<lparr>name = ''Rainbow 0xA'', address = ''ALICE'',
            metadata = Some \<lparr>evmAddress = Some ''0xA'', connectorName = Some ''New name'',
                             connectorIcon = None\<rparr>\<rparr>]]"
    using resume_example [of "fst (resumeWithAccounts exampleEnv reloadedWallet [''0xA''] ?info)"
        "snd (resumeWithAccounts exampleEnv reloadedWallet [''0xA''] ?info)"]
    by simp
  from resume_signals_fresh_accounts [OF s i g, of ?info] obtain fresh where
    f: "calls (fst (resumeWithAccounts exampleEnv reloadedWallet [''0xA''] ?info))
          = calls reloadedWallet @ [SetAccountsFn fresh]"
    by blast
  from f e have fr: "fresh =
          [\<lparr>name = ''Rainbow 0xA'', address = ''ALICE'',
            metadata = Some \<lparr>evmAddress = Some ''0xA'', connectorName = Some ''New name'',
                             connectorIcon = None\<rparr>\<rparr>]"
    by (simp add: reloadedWallet_def)
  have c: "compareAccounts
         [\<lparr>name = ''Rainbow 0xA'', address = ''ALICE'',
           metadata = Some \<lparr>evmAddress = Some ''0xA'', connectorName = Some ''New name'',
                            connectorIcon = None\<rparr>\<rparr>]
         [aliceAccount]"
    by (simp add: compareAccounts_def aliceAccount_def)
  have q: "calls (fst (resumeWithAccounts_pkg exampleEnv reloadedWallet [''0xA''])) = []"
    using resume_pkg_example
      [of "fst (resumeWithAccounts_pkg exampleEnv reloadedWallet [''0xA''])"
          "snd (resumeWithAccounts_pkg exampleEnv reloadedWallet [''0xA''])"]
    by simp
  from f fr have e': "calls (fst (resumeWithAccounts exampleEnv reloadedWallet [''0xA''] ?info)) =
       [SetAccountsFn
          [\<lparr>name = ''Rainbow 0xA'', address = ''ALICE'',
            metadata = Some \<lparr>evmAddress = Some ''0xA'', connectorName = Some ''New name'',
                             connectorIcon = None\<rparr>\<rparr>]]"
    by (simp add: reloadedWallet_def)
  have g': "getAddress exampleSdk ''0xA'' = Inr ''ALICE''" by (simp add: exampleSdk_def)
  from s i g' e' c q show ?thesis by simp
qed

theorem resume_unchanged_addresses_counterexample:
  "storeWallet reloadedWallet
     = Some \<lparr>accounts = [aliceAccount], activeAccount = Some aliceAccount\<rparr>
   \<and> snd (deriveAlgorandAccounts_pkg exampleEnv reloadedWallet [''0xA'']) =
       Inr [\<lparr>name = ''Rainbow 0xA'', address = ''ALICE'',
             metadata = Some \<lparr>evmAddress = Some ''0xA'', connectorName = None,
                              connectorIcon = None\<rparr>\<rparr>]
   \<and> set (map address
         [\<lparr>name = ''Rainbow 0xA'', address = ''ALICE'',
           metadata = Some \<lparr>evmAddress = Some ''0xA'', connectorName = None,
                            connectorIcon = None\<rparr>\<rparr>])
       = set (map address [aliceAccount])
   \<and> map metadata
         [\<lparr>name = ''Rainbow 0xA'', address = ''ALICE'',
           metadata = Some \<lparr>evmAddress = Some ''0xA'', connectorName = None,
                            connectorIcon = None\<rparr>\<rparr>]
       \<noteq> map metadata [aliceAccount]
   \<and> snd (resumeWithAccounts_pkg exampleEnv reloadedWallet [''0xA'']) = Inr ()
   \<and> calls (fst (resumeWithAccounts_pkg exampleEnv reloadedWallet [''0xA''])) = []"
proof -
  have d: "snd (deriveAlgorandAccounts_pkg exampleEnv reloadedWallet [''0xA'']) =
       Inr [\<lparr>name = ''Rainbow 0xA'', address = ''ALICE'',
             metadata = Some \<lparr>evmAddress = Some ''0xA'', connectorName = None,
                              connectorIcon = None\<rparr>\<rparr>]"
    by (simp add: deriveAlgorandAccounts_pkg_def example_defs)
  have q: "snd (resumeWithAccounts_pkg exampleEnv reloadedWallet [''0xA'']) = Inr ()
      \<and> calls (fst (resumeWithAccounts_pkg exampleEnv reloadedWallet [''0xA''])) = []"
    using resume_pkg_example
      [of "fst (resumeWithAccounts_pkg exampleEnv reloadedWallet [''0xA''])"
          "snd (resumeWithAccounts_pkg exampleEnv reloadedWallet [''0xA''])"]
    by simp
  from d q show ?thesis by (simp add: reloadedWallet_def aliceAccount_def)
qed

section \<open>Nothing to sign\<close>

lemma flatTxnsOf_Encoded:
  "flatTxnsOf c (Encoded g) = Inr flat \<Longrightarrow>
     \<exists>ds. decodeAll c (flattenTxnGroup g) = Inr ds \<and> flat = map snd ds"
  by (auto simp: flatTxnsOf_def split: sum.splits)

lemma decodeAll_length: "decodeAll c bufs = Inr ds \<Longrightarrow> length ds = length bufs"
  by (induction bufs arbitrary: ds) (auto split: sum.splits)

lemma flatTxnsOf_length:
  "flatTxnsOf c g = Inr flat \<Longrightarrow>
     length flat = (case g of Structured s \<Rightarrow> length (flattenTxnGroup s)
                    | Encoded e \<Rightarrow> length (flattenTxnGroup e))"
  by (cases g) (auto simp: flatTxnsOf_def decodeAll_length split: sum.splits)

lemma not_eligible_empty_filter: "\<not> eligibleForSignature (Some []) owned i s t"
  by (simp add: eligibleForSignature_def)

lemma processTxns_empty_filter: "processTxns owned txns (Some []) = []"
  by (simp add: processTxns_def processTxns_from_filter not_eligible_empty_filter)

lemma processEncodedTxns_empty_filter:
  "decodeAll c bufs = Inr ds \<Longrightarrow> processEncodedTxns c owned bufs (Some []) = Inr []"
  by (simp add: processEncodedTxns_def processEncodedTxns_from_filter
        not_eligible_empty_filter)

lemma txnsToSignOf_empty_filter:
  "flatTxnsOf (codec env) g = Inr flat \<Longrightarrow> txnsToSignOf env g flat (Some []) = Inr []"
  by (cases g)
     (auto simp: txnsToSignOf_def processTxns_empty_filter
        dest!: flatTxnsOf_Encoded intro: processEncodedTxns_empty_filter)

lemma signTransactions_nothing_to_sign:
  assumes "initializeEvmSdk env = Inr k"
    and "flatTxnsOf (codec env) g = Inr flat"
    and "txnsToSignOf env g flat f = Inr []"
  shows "signTransactions env w g f = (w, Inr (replicate (length flat) Null))"
  using assms by (simp add: signTransactions_def signTransactions_try_def map_replicate_const)

lemma signTransactions_mm_nothing_to_sign:
  assumes "initializeEvmSdk env = Inr k"
    and "flatTxnsOf (codec env) g = Inr flat"
    and "txnsToSignOf env g flat f = Inr []"
  shows "signTransactions_mm env w g f = (w, Inr (replicate (length flat) Null))"
  using assms by (simp add: signTransactions_mm_def map_replicate_const)

lemma processTxns_pkg_from_empty_filter:
  "map signers (processTxns_pkg_from owned (Some []) k txns) = replicate (length txns) (Some [])"
  by (induction txns arbitrary: k) (simp_all add: isIndexMatch_def)

text \<open>
  An empty index filter is a filter that selects no index: with \<open>Some []\<close> both versions of
  \<open>processTxns\<close> classify every entry as not to be signed, and \<open>signTransactions\<close> of
  unnamed/part\_000, once the SDK is initialised and the group is normalized to
  \<open>flatTxns\<close>, returns \<open>null\<close> at every one of the \<open>length flatTxns\<close> positions and leaves
  the wallet as it is (no hook, no request, no signature call). An absent filter is
  different: it lets an owned entry through.
\<close>

theorem empty_filter_selects_nothing:
  assumes "initializeEvmSdk env = Inr liquidEvmSdk"
    and "flatTxnsOf (codec env) txnGroup = Inr flatTxns"
  shows
    "processTxns owned txns (Some []) = []
   \<and> map signers (processTxns_pkg owned txns (Some [])) = replicate (length txns) (Some [])
   \<and> txnsToSignOf env txnGroup flatTxns (Some []) = Inr []
   \<and> signTransactions env w txnGroup (Some []) = (w, Inr (replicate (length flatTxns) Null))
   \<and> (sender t \<in> set owned \<longrightarrow> processTxns owned [t] None = [t])"
proof -
  have none: "txnsToSignOf env txnGroup flatTxns (Some []) = Inr []"
    using assms(2) by (rule txnsToSignOf_empty_filter)
  have absent: "sender t \<in> set owned \<longrightarrow> processTxns owned [t] None = [t]"
    by (simp add: processTxns_def isIndexMatch_def)
  from none absent signTransactions_nothing_to_sign [OF assms none, of w]
  show ?thesis
    by (simp add: processTxns_empty_filter processTxns_pkg_def
          processTxns_pkg_from_empty_filter)
qed

theorem empty_filter_selects_nothing_witness:
  "initializeEvmSdk exampleEnv = Inr exampleSdk
   \<and> flatTxnsOf (codec exampleEnv) (Encoded (Nested [[[0, 0, 8]], [[0, 1, 9]]]))
       = Inr [Transaction ''ALICE'' [8], Transaction ''BOB'' [9]]
   \<and> signTransactions exampleEnv connectedWallet (Encoded (Nested [[[0, 0, 8]], [[0, 1, 9]]]))
         (Some [])
       = (connectedWallet, Inr [Null, Null])
   \<and> sender (Transaction ''ALICE'' [8]) \<in> set [''ALICE'']
   \<and> processTxns [''ALICE''] [Transaction ''ALICE'' [8]] None = [Transaction ''ALICE'' [8]]
   \<and> processTxns [''ALICE''] [Transaction ''ALICE'' [8]] (Some []) = []"
proof -
  have i: "initializeEvmSdk exampleEnv = Inr exampleSdk" by (simp add: exampleEnv_def)
  have fl: "flatTxnsOf (codec exampleEnv) (Encoded (Nested [[[0, 0, 8]], [[0, 1, 9]]]))
       = Inr [Transaction ''ALICE'' [8], Transaction ''BOB'' [9]]"
    by (simp add: flatTxnsOf_def decodeTxn_def example_defs)
  have m: "sender (Transaction ''ALICE'' [8]) \<in> set [''ALICE'']" by simp
  from empty_filter_selects_nothing
         [OF i fl, of "[''ALICE'']" "[Transaction ''ALICE'' [8]]" connectedWallet
            "Transaction ''ALICE'' [8]"] m i fl
  show ?thesis by (simp add: numeral_2_eq_2)
qed

section \<open>Failure of a signing call\<close>

lemma runAfterSign_frame:
  "evmAddressMap (runAfterSign env w b m) = evmAddressMap w"
  "storeWallet (runAfterSign env w b m) = storeWallet w"
  "calls (runAfterSign env w b m) =
     calls w @ (if nullish (uiHooks_onAfterSign env) (managerUIHooks_onAfterSign env) = None
                then [] else [OnAfterSign b m])"
  by (auto simp: runAfterSign_def logged_def split: option.splits)

lemma signTransactions_error_iff:
  "snd (signTransactions env w g f) = Inl err
     \<longleftrightarrow> snd (signTransactions_try env w g f) = Inl err"
  by (auto simp: signTransactions_def split: prod.splits sum.splits)

lemma signTransactions_pkg_error_iff:
  "snd (signTransactions_pkg env w g f) = Inl err
     \<longleftrightarrow> snd (signTransactions_pkg_try env w g f) = Inl err"
  by (auto simp: signTransactions_pkg_def split: prod.splits sum.splits)

lemma signTransactions_success_iff:
  "signTransactions env w g f = (w', Inr res)
     \<longleftrightarrow> signTransactions_try env w g f = (w', Inr res)"
  by (auto simp: signTransactions_def split: prod.splits sum.splits)

lemma signTransactions_pkg_success_iff:
  "signTransactions_pkg env w g f = (w', Inr res)
     \<longleftrightarrow> signTransactions_pkg_try env w g f = (w', Inr res)"
  by (auto simp: signTransactions_pkg_def split: prod.splits sum.splits)

text \<open>
  Claim C9. When the \<open>try\<close> block of \<open>signTransactions\<close> fails with \<open>err\<close> (every failure
  of the block happens before the signature call has returned its blobs: the block cannot
  fail after that), the configured after-sign hook is called once with \<open>false\<close> and
  \<open>err.message\<close>, whatever the hook throws is dropped, \<open>signTransactions\<close> throws \<open>err\<close>
  itself and returns no array, and nothing else of the wallet changes. Conversely every
  error \<open>signTransactions\<close> throws is the error of its \<open>try\<close> block. Both for unnamed/part\_000
  and for liquid-evm-base.ts.
\<close>

theorem failure_runs_hook_and_rethrows:
  "(signTransactions_try env w txnGroup indexesToSign = (w1, Inl err) \<longrightarrow>
       snd (signTransactions env w txnGroup indexesToSign) = Inl err
     \<and> calls (fst (signTransactions env w txnGroup indexesToSign)) =
         calls w1 @
           (if nullish (uiHooks_onAfterSign env) (managerUIHooks_onAfterSign env) = None
            then [] else [OnAfterSign False (Some (message err))])
     \<and> evmAddressMap (fst (signTransactions env w txnGroup indexesToSign)) = evmAddressMap w1
     \<and> storeWallet (fst (signTransactions env w txnGroup indexesToSign)) = storeWallet w1)
   \<and> (signTransactions_pkg_try env w txnGroup indexesToSign = (w1, Inl err) \<longrightarrow>
       snd (signTransactions_pkg env w txnGroup indexesToSign) = Inl err
     \<and> calls (fst (signTransactions_pkg env w txnGroup indexesToSign)) =
         calls w1 @
           (if nullish (uiHooks_onAfterSign env) (managerUIHooks_onAfterSign env) = None
            then [] else [OnAfterSign False (Some (message err))])
     \<and> evmAddressMap (fst (signTransactions_pkg env w txnGroup indexesToSign))
         = evmAddressMap w1
     \<and> storeWallet (fst (signTransactions_pkg env w txnGroup indexesToSign)) = storeWallet w1)
   \<and> (snd (signTransactions env w txnGroup indexesToSign) = Inl err \<longrightarrow>
       snd (signTransactions_try env w txnGroup indexesToSign) = Inl err)
   \<and> (snd (signTransactions_pkg env w txnGroup indexesToSign) = Inl err \<longrightarrow>
       snd (signTransactions_pkg_try env w txnGroup indexesToSign) = Inl err)"
proof (intro conjI impI)
  assume "signTransactions_try env w txnGroup indexesToSign = (w1, Inl err)"
  then have r: "signTransactions env w txnGroup indexesToSign
                  = (runAfterSign env w1 False (Some (message err)), Inl err)"
    by (simp add: signTransactions_def)
  show "snd (signTransactions env w txnGroup indexesToSign) = Inl err"
    and "calls (fst (signTransactions env w txnGroup indexesToSign)) =
         calls w1 @
           (if nullish (uiHooks_onAfterSign env) (managerUIHooks_onAfterSign env) = None
            then [] else [OnAfterSign False (Some (message err))])"
    and "evmAddressMap (fst (signTransactions env w txnGroup indexesToSign)) = evmAddressMap w1"
    and "storeWallet (fst (signTransactions env w txnGroup indexesToSign)) = storeWallet w1"
    by (simp_all add: r runAfterSign_frame)
next
  assume "signTransactions_pkg_try env w txnGroup indexesToSign = (w1, Inl err)"
  then have r: "signTransactions_pkg env w txnGroup indexesToSign
                  = (runAfterSign env w1 False (Some (message err)), Inl err)"
    by (simp add: signTransactions_pkg_def)
  show "snd (signTransactions_pkg env w txnGroup indexesToSign) = Inl err"
    and "calls (fst (signTransactions_pkg env w txnGroup indexesToSign)) =
         calls w1 @
           (if nullish (uiHooks_onAfterSign env) (managerUIHooks_onAfterSign env) = None
            then [] else [OnAfterSign False (Some (message err))])"
    and "evmAddressMap (fst (signTransactions_pkg env w txnGroup indexesToSign))
           = evmAddressMap w1"
    and "storeWallet (fst (signTransactions_pkg env w txnGroup indexesToSign)) = storeWallet w1"
    by (simp_all add: r runAfterSign_frame)
next
  assume "snd (signTransactions env w txnGroup indexesToSign) = Inl err"
  then show "snd (signTransactions_try env w txnGroup indexesToSign) = Inl err"
    by (simp add: signTransactions_error_iff)
next
  assume "snd (signTransactions_pkg env w txnGroup indexesToSign) = Inl err"
  then show "snd (signTransactions_pkg_try env w txnGroup indexesToSign) = Inl err"
    by (simp add: signTransactions_pkg_error_iff)
qed

lemma try_example:
  "signTransactions_try exampleEnv freshWallet
       (Structured (Flat [Transaction ''ALICE'' [1]])) None
     = (freshWallet, Inl (noEvmAddress ''ALICE''))"
  by (simp add: signTransactions_try_def flatTxnsOf_def txnsToSignOf_def processTxns_def
        isIndexMatch_def resolveEvmAddress_def truthy_def example_defs)

lemma try_pkg_example:
  "signTransactions_pkg_try exampleEnv freshWallet
       (Structured (Flat [Transaction ''ALICE'' [1]])) None
     = (freshWallet, Inl (noEvmAddress ''ALICE''))"
  by (simp add: signTransactions_pkg_try_def txnsToSignOf_pkg_def processTxns_pkg_def
        isIndexMatch_def resolveEvmAddress_pkg_def example_defs)

theorem failure_runs_hook_and_rethrows_witness:
  "signTransactions_try exampleEnv freshWallet
       (Structured (Flat [Transaction ''ALICE'' [1]])) None
     = (freshWallet, Inl (noEvmAddress ''ALICE''))
   \<and> signTransactions_pkg_try exampleEnv freshWallet
       (Structured (Flat [Transaction ''ALICE'' [1]])) None
     = (freshWallet, Inl (noEvmAddress ''ALICE''))
   \<and> nullish (uiHooks_onAfterSign exampleEnv) (managerUIHooks_onAfterSign exampleEnv)
       = Some (\<lambda>success errorMessage. Some (Error None ''hook failed''))
   \<and> snd (signTransactions exampleEnv freshWallet
            (Structured (Flat [Transaction ''ALICE'' [1]])) None)
       = Inl (Error None ''No EVM address found for Algorand address: ALICE'')
   \<and> calls (fst (signTransactions exampleEnv freshWallet
            (Structured (Flat [Transaction ''ALICE'' [1]])) None))
       = [OnAfterSign False (Some ''No EVM address found for Algorand address: ALICE'')]
   \<and> snd (signTransactions_pkg exampleEnv freshWallet
            (Structured (Flat [Transaction ''ALICE'' [1]])) None)
       = Inl (Error None ''No EVM address found for Algorand address: ALICE'')
   \<and> calls (fst (signTransactions_pkg exampleEnv freshWallet
            (Structured (Flat [Transaction ''ALICE'' [1]])) None))
       = [OnAfterSign False (Some ''No EVM address found for Algorand address: ALICE'')]"
proof -
  have h: "nullish (uiHooks_onAfterSign exampleEnv) (managerUIHooks_onAfterSign exampleEnv)
       = Some (\<lambda>success errorMessage. Some (Error None ''hook failed''))"
    by (simp add: nullish_def exampleEnv_def)
  have m: "noEvmAddress ''ALICE''
             = Error None ''No EVM address found for Algorand address: ALICE''"
    by (simp add: noEvmAddress_def)
  from failure_runs_hook_and_rethrows
         [of exampleEnv freshWallet "Structured (Flat [Transaction ''ALICE'' [1]])" None
             freshWallet "noEvmAddress ''ALICE''"]
       try_example try_pkg_example h
  show ?thesis by (simp add: m freshWallet_def)
qed

section \<open>Where the signing versions differ\<close>

lemma signIndexesOf_Nil: "signIndexesOf [] = []"
  by (simp add: signIndexesOf_def)

lemma signIndexesOf_Cons:
  "signIndexesOf (t # ts) =
     (if signers t = None then [0] else []) @ map Suc (signIndexesOf ts)"
  by (simp add: signIndexesOf_def enumerate_Suc_eq filter_map comp_def case_prod_unfold)

lemmas sign_defs =
  signTransactions_def signTransactions_try_def signTransactions_mm_def
  signTransactions_pkg_def signTransactions_pkg_try_def
  flatTxnsOf_def txnsToSignOf_def txnsToSignOf_pkg_def
  processTxns_def processEncodedTxns_def processTxns_pkg_def processEncodedTxns_pkg_def
  decodeTxn_def isIndexMatch_def
  resolveEvmAddress_def resolveEvmAddress_pkg_def truthy_def
  runBeforeSign_def runAfterSign_def nullish_def logged_def
  ensureAlgorandChain_def ensureAlgorandChain_pkg_def chainUnknown_def chainUnknown_pkg_def
  unregisteredCodes_def toLowerCase_def
  buildResult_def at_def signIndexesOf_Nil signIndexesOf_Cons

text \<open>
  Claim C1 says that the result has \<open>null\<close> at every position classified ineligible. On
  binary-encoded input \<open>signTransactions\<close> of unnamed/part\_000 and of \<open>MetaMaskWallet\<close> do
  otherwise: the group below holds an already-signed wrapper sent by the owned address
  \<open>ALICE\<close> followed by an unsigned transaction of \<open>ALICE\<close>. \<open>processEncodedTxns\<close> leaves
  the first entry out (it is not eligible), yet the result array, which tests the index
  and the sender but not \<open>isSigned\<close>, holds a blob at position 0. The
  \<open>signTransactions\<close> of liquid-evm-base.ts returns \<open>null\<close> there.
\<close>

theorem signed_entry_gets_blob:
  "decodeAll (codec exampleEnv) [[1, 0, 7], [0, 0, 8]]
     = Inr [(True, Transaction ''ALICE'' [7]), (False, Transaction ''ALICE'' [8])]
   \<and> processEncodedTxns (codec exampleEnv) (addresses exampleEnv) [[1, 0, 7], [0, 0, 8]] None
       = Inr [Transaction ''ALICE'' [8]]
   \<and> eligibleForSignature None (addresses exampleEnv) 0 True (Transaction ''ALICE'' [7]) = False
   \<and> snd (signTransactions exampleEnv connectedWallet
             (Encoded (Flat [[1, 0, 7], [0, 0, 8]])) None)
       = Inr [Blob [9, 7], Blob [9, 8]]
   \<and> snd (signTransactions_mm metaMaskEnv connectedWallet
             (Encoded (Flat [[1, 0, 7], [0, 0, 8]])) None)
       = Inr [Blob [9, 7], Blob [9, 8]]
   \<and> snd (signTransactions_pkg exampleEnv connectedWallet
             (Encoded (Flat [[1, 0, 7], [0, 0, 8]])) None)
       = Inr [Null, Blob [9, 8]]"
  by (simp add: sign_defs example_defs eligibleForSignature_def)

text \<open>
  Claim C2 says that a group with no eligible entry gives an all-\<open>null\<close> array and no call
  of the signature capability. \<open>signTransactions\<close> of liquid-evm-base.ts has no such early
  return: with one entry sent by the foreign address \<open>BOB\<close> it throws the
  no-source-address error for \<open>BOB\<close>; with an empty group it throws a \<open>TypeError\<close>; with
  an owned entry that the index filter excludes it returns \<open>[null]\<close> after calling
  \<open>getSigner\<close> and the signer with no index to sign. \<open>signTransactions\<close> of unnamed/part\_000
  returns \<open>[null]\<close> on the first input and leaves the wallet untouched.
\<close>

theorem nothing_to_sign_still_fails:
  "txnsToSignOf_pkg exampleEnv (Structured (Flat [Transaction ''BOB'' [1]])) None
     = Inr [\<lparr>txn = Transaction ''BOB'' [1], signers = Some []\<rparr>]
   \<and> snd (signTransactions_pkg exampleEnv connectedWallet
             (Structured (Flat [Transaction ''BOB'' [1]])) None)
       = Inl (Error None ''No EVM address found for Algorand address: BOB'')
   \<and> snd (signTransactions_pkg exampleEnv connectedWallet (Structured (Flat [])) None)
       = Inl typeErrorFirstTxn
   \<and> txnsToSignOf_pkg exampleEnv (Structured (Flat [Transaction ''ALICE'' [1]])) (Some [5])
       = Inr [\<lparr>txn = Transaction ''ALICE'' [1], signers = Some []\<rparr>]
   \<and> snd (signTransactions_pkg exampleEnv connectedWallet
             (Structured (Flat [Transaction ''ALICE'' [1]])) (Some [5]))
       = Inr [Null]
   \<and> filter isSignatureCall
        (calls (fst (signTransactions_pkg exampleEnv connectedWallet
                       (Structured (Flat [Transaction ''ALICE'' [1]])) (Some [5]))))
       = [GetSigner ''0xA'', EvmSigner [Transaction ''ALICE'' [1]] []]
   \<and> signTransactions exampleEnv connectedWallet
         (Structured (Flat [Transaction ''BOB'' [1]])) None
       = (connectedWallet, Inr [Null])"
  by (simp add: sign_defs example_defs noEvmAddress_def)

text \<open>
  Claim C4 says that the source address is resolved from the first eligible entry, with a
  rebuild of the map from persisted metadata when the lookup fails. \<open>signTransactions\<close> of
  liquid-evm-base.ts looks up the sender of the first entry, eligible or not, and has no
  rebuild: with the foreign entry of \<open>BOB\<close> before the owned entry of \<open>ALICE\<close> it throws
  for \<open>BOB\<close> although the map resolves \<open>ALICE\<close>; after a reload (empty map, persisted
  metadata naming \<open>0xA\<close>) it throws for \<open>ALICE\<close>. \<open>signTransactions\<close> of unnamed/part\_000
  signs in both cases, and the rebuild leaves \<open>ALICE\<close> in the map.
\<close>

theorem first_entry_is_looked_up:
  "txnsToSignOf_pkg exampleEnv
       (Structured (Flat [Transaction ''BOB'' [1], Transaction ''ALICE'' [2]])) None
     = Inr [\<lparr>txn = Transaction ''BOB'' [1], signers = Some []\<rparr>,
            \<lparr>txn = Transaction ''ALICE'' [2], signers = None\<rparr>]
   \<and> evmAddressMap connectedWallet ''ALICE'' = Some ''0xA''
   \<and> snd (signTransactions_pkg exampleEnv connectedWallet
             (Structured (Flat [Transaction ''BOB'' [1], Transaction ''ALICE'' [2]])) None)
       = Inl (Error None ''No EVM address found for Algorand address: BOB'')
   \<and> snd (signTransactions exampleEnv connectedWallet
             (Structured (Flat [Transaction ''BOB'' [1], Transaction ''ALICE'' [2]])) None)
       = Inr [Null, Blob [9, 2]]
   \<and> evmAddressMap reloadedWallet ''ALICE'' = None
   \<and> map sourceAddressOf (accounts (the (storeWallet reloadedWallet))) = [Some ''0xA'']
   \<and> snd (signTransactions_pkg exampleEnv reloadedWallet
             (Structured (Flat [Transaction ''ALICE'' [2]])) None)
       = Inl (Error None ''No EVM address found for Algorand address: ALICE'')
   \<and> snd (signTransactions exampleEnv reloadedWallet
             (Structured (Flat [Transaction ''ALICE'' [2]])) None)
       = Inr [Blob [9, 2]]
   \<and> evmAddressMap
        (fst (signTransactions exampleEnv reloadedWallet
                (Structured (Flat [Transaction ''ALICE'' [2]])) None)) ''ALICE''
       = Some ''0xA''"
  by (simp add: sign_defs example_defs noEvmAddress_def sourceAddressOf_def)

section \<open>What the signing of unnamed/part\_000 does on every input\<close>

text \<open>
  The general facts behind the examples above. With no eligible entry, \<open>signTransactions\<close>
  of unnamed/part\_000 and of \<open>MetaMaskWallet\<close> return \<open>null\<close> everywhere and touch nothing.
  On structured input, when the SDK returns one blob per transaction, the result of
  unnamed/part\_000 has a blob exactly at the eligible positions. The source address it
  resolves is that of the first eligible entry, from the map or, failing that, from the
  map rebuilt from the persisted metadata.
\<close>

lemma processTxns_from_first:
  "processTxns_from A f k txns = first # others \<Longrightarrow>
     \<exists>i<length txns. first = txns ! i
        \<and> eligibleForSignature f A (k + i) False (txns ! i)
        \<and> (\<forall>j<i. \<not> eligibleForSignature f A (k + j) False (txns ! j))"
proof (induction txns arbitrary: k)
  case Nil
  then show ?case by simp
next
  case (Cons t ts)
  show ?case
  proof (cases "eligibleForSignature f A k False t")
    case True
    with Cons.prems have "first = t"
      by (simp add: eligibleForSignature_def isIndexMatch_spec)
    with True show ?thesis by (intro exI [of _ 0]) simp
  next
    case False
    with Cons.prems have "processTxns_from A f (Suc k) ts = first # others"
      by (auto simp: eligibleForSignature_def isIndexMatch_spec split: if_splits)
    from Cons.IH [OF this] obtain i where i: "i < length ts" "first = ts ! i"
      "eligibleForSignature f A (Suc k + i) False (ts ! i)"
      "\<forall>j<i. \<not> eligibleForSignature f A (Suc k + j) False (ts ! j)"
      by blast
    have "\<forall>j<Suc i. \<not> eligibleForSignature f A (k + j) False ((t # ts) ! j)"
    proof (intro allI impI)
      fix j assume "j < Suc i"
      then show "\<not> eligibleForSignature f A (k + j) False ((t # ts) ! j)"
        using False i(4) by (cases j) auto
    qed
    with i show ?thesis by (intro exI [of _ "Suc i"]) simp
  qed
qed

lemma filter_enumerate_Nil_iff:
  "filter P (enumerate 0 xs) = [] \<longleftrightarrow> (\<forall>i<length xs. \<not> P (i, xs ! i))"
proof
  assume e: "filter P (enumerate 0 xs) = []"
  show "\<forall>i<length xs. \<not> P (i, xs ! i)"
  proof (intro allI impI)
    fix i assume "i < length xs"
    then have "(i, xs ! i) \<in> set (enumerate 0 xs)" by (simp add: in_set_enumerate_eq)
    with e show "\<not> P (i, xs ! i)" by (simp add: filter_empty_conv)
  qed
next
  assume "\<forall>i<length xs. \<not> P (i, xs ! i)"
  then show "filter P (enumerate 0 xs) = []"
    by (auto simp: filter_empty_conv in_set_enumerate_eq)
qed

lemma processTxns_Nil_iff:
  "processTxns A txns f = []
     \<longleftrightarrow> (\<forall>i<length txns. \<not> eligibleForSignature f A i False (txns ! i))"
  by (simp add: processTxns_def processTxns_from_filter filter_enumerate_Nil_iff)

lemma processEncodedTxns_Nil_iff:
  "decodeAll c bufs = Inr ds \<Longrightarrow>
   processEncodedTxns c A bufs f = Inr []
     \<longleftrightarrow> (\<forall>i<length ds. \<not> eligibleForSignature f A i (fst (ds ! i)) (snd (ds ! i)))"
  by (simp add: processEncodedTxns_def processEncodedTxns_from_filter
        filter_enumerate_Nil_iff case_prod_unfold)

lemma buildResult_length: "length (buildResult A f flat blobs) = length flat"
  by (simp add: buildResult_def)

lemma buildResult_nth:
  "i < length flat \<Longrightarrow>
     buildResult A f flat blobs ! i =
       (if eligibleForSignature f A i False (flat ! i) then at blobs i else Null)"
  by (simp add: buildResult_def nth_enumerate_eq eligibleForSignature_def isIndexMatch_spec)

lemma resolveEvmAddress_hit:
  "evmAddressMap w a = Some e \<Longrightarrow> e \<noteq> [] \<Longrightarrow> resolveEvmAddress w a = (w, Inr e)"
  by (simp add: resolveEvmAddress_def truthy_def)

lemma resolveEvmAddress_rebuilt:
  "\<not> truthy (evmAddressMap w a) \<Longrightarrow> storeWallet w = Some ws \<Longrightarrow>
   rebuildEvmAddressMap (accounts ws) (evmAddressMap w) a = Some e \<Longrightarrow> e \<noteq> [] \<Longrightarrow>
     resolveEvmAddress w a =
       (w\<lparr>evmAddressMap := rebuildEvmAddressMap (accounts ws) (evmAddressMap w)\<rparr>, Inr e)"
  by (simp add: resolveEvmAddress_def)

lemma resolveEvmAddress_absent:
  "\<not> truthy (evmAddressMap w a) \<Longrightarrow>
   (case storeWallet w of None \<Rightarrow> True
    | Some ws \<Rightarrow> \<not> truthy (rebuildEvmAddressMap (accounts ws) (evmAddressMap w) a)) \<Longrightarrow>
     snd (resolveEvmAddress w a) = Inl (noEvmAddress a)"
  by (auto simp: resolveEvmAddress_def truthy_def split: option.splits)

lemma rebuildEvmAddressMap_other:
  "a \<notin> address ` set accts \<Longrightarrow> rebuildEvmAddressMap accts m a = m a"
  by (induction accts arbitrary: m) (auto split: option.splits)

lemma rebuildEvmAddressMap_finds:
  "distinct (map address accts) \<Longrightarrow> acct \<in> set accts \<Longrightarrow>
   sourceAddressOf acct = Some e \<Longrightarrow> e \<noteq> [] \<Longrightarrow>
     rebuildEvmAddressMap accts m (address acct) = Some e"
proof (induction accts arbitrary: m)
  case Nil
  then show ?case by simp
next
  case (Cons x accts)
  show ?case
  proof (cases "acct = x")
    case True
    with Cons.prems have fresh: "address x \<notin> address ` set accts" by auto
    from True Cons.prems(3) obtain md where md: "metadata x = Some md" "evmAddress md = Some e"
      by (auto simp: sourceAddressOf_def split: option.splits)
    from fresh md Cons.prems(4) True show ?thesis
      by (simp add: rebuildEvmAddressMap_other)
  next
    case False
    with Cons.prems have "acct \<in> set accts" "distinct (map address accts)" by auto
    from Cons.IH [OF this(2,1) Cons.prems(3,4)] show ?thesis by simp
  qed
qed


lemma signTransactions_try_success:
  assumes "signTransactions_try env w g f = (w', Inr res)"
  obtains (nothing) flat where
      "flatTxnsOf (codec env) g = Inr flat" "txnsToSignOf env g flat f = Inr []"
      "res = replicate (length flat) Null" "w' = w"
    | (signed) k flat first others w1 evmAddr blobs where
      "initializeEvmSdk env = Inr k" "flatTxnsOf (codec env) g = Inr flat"
      "txnsToSignOf env g flat f = Inr (first # others)"
      "resolveEvmAddress w (sender first) = (w1, Inr evmAddr)"
      "signTxn k evmAddr flat = Inr blobs"
      "res = buildResult (addresses env) f flat blobs"
      "SignTxn evmAddr flat \<in> set (calls w')"
proof (cases "initializeEvmSdk env")
  case (Inl e)
  with assms show ?thesis by (simp add: signTransactions_try_def)
next
  case k: (Inr k)
  show ?thesis
  proof (cases "flatTxnsOf (codec env) g")
    case (Inl e)
    with assms k show ?thesis by (simp add: signTransactions_try_def)
  next
    case flat: (Inr flat)
    show ?thesis
    proof (cases "txnsToSignOf env g flat f")
      case (Inl e)
      with assms k flat show ?thesis by (simp add: signTransactions_try_def)
    next
      case ts: (Inr ts)
      show ?thesis
      proof (cases ts)
        case Nil
        with assms k flat ts have a: "res = replicate (length flat) Null" and b: "w' = w"
          by (auto simp: signTransactions_try_def map_replicate_const)
        from ts Nil have n: "txnsToSignOf env g flat f = Inr []" by simp
        show ?thesis by (rule that(1) [OF flat n a b])
      next
        case (Cons first others)
        obtain w1 r1 where r: "resolveEvmAddress w (sender first) = (w1, r1)"
          by (cases "resolveEvmAddress w (sender first)")
        obtain w2 b where b: "runBeforeSign env w1 g f = (w2, b)"
          by (cases "runBeforeSign env w1 g f")
        obtain evs c where c: "ensureAlgorandChain env = (evs, c)"
          by (cases "ensureAlgorandChain env")
        from assms k flat ts Cons r b c obtain evmAddr blobs where
          r1: "r1 = Inr evmAddr" and sg: "signTxn k evmAddr flat = Inr blobs"
          and rs: "res = buildResult (addresses env) f flat blobs"
          and w': "w' = runAfterSign env (logged w2 (evs @ [SignTxn evmAddr flat])) True None"
          by (auto simp: signTransactions_try_def split: sum.splits option.splits)
        from w' have ev: "SignTxn evmAddr flat \<in> set (calls w')"
          by (simp add: runAfterSign_frame logged_def)
        from ts Cons have n: "txnsToSignOf env g flat f = Inr (first # others)" by simp
        from r r1 have r': "resolveEvmAddress w (sender first) = (w1, Inr evmAddr)" by simp
        show ?thesis by (rule that(2) [OF k flat n r' sg rs ev])
      qed
    qed
  qed
qed

lemma signTransactions_no_eligible_structured:
  assumes "initializeEvmSdk env = Inr k"
    and "\<forall>i<length (flattenTxnGroup s).
           \<not> eligibleForSignature f (addresses env) i False (flattenTxnGroup s ! i)"
  shows "signTransactions env w (Structured s) f
           = (w, Inr (replicate (length (flattenTxnGroup s)) Null))"
    and "signTransactions_mm env w (Structured s) f
           = (w, Inr (replicate (length (flattenTxnGroup s)) Null))"
proof -
  have fl: "flatTxnsOf (codec env) (Structured s) = Inr (flattenTxnGroup s)"
    by (simp add: flatTxnsOf_def)
  have none: "txnsToSignOf env (Structured s) (flattenTxnGroup s) f = Inr []"
    using assms(2) by (simp add: txnsToSignOf_def processTxns_Nil_iff)
  show "signTransactions env w (Structured s) f
           = (w, Inr (replicate (length (flattenTxnGroup s)) Null))"
    by (rule signTransactions_nothing_to_sign [OF assms(1) fl none])
  show "signTransactions_mm env w (Structured s) f
           = (w, Inr (replicate (length (flattenTxnGroup s)) Null))"
    by (rule signTransactions_mm_nothing_to_sign [OF assms(1) fl none])
qed

lemma signTransactions_no_eligible_encoded:
  assumes "initializeEvmSdk env = Inr k"
    and "decodeAll (codec env) (flattenTxnGroup e) = Inr ds"
    and "\<forall>i<length ds.
           \<not> eligibleForSignature f (addresses env) i (fst (ds ! i)) (snd (ds ! i))"
  shows "signTransactions env w (Encoded e) f = (w, Inr (replicate (length ds) Null))"
    and "signTransactions_mm env w (Encoded e) f = (w, Inr (replicate (length ds) Null))"
proof -
  have fl: "flatTxnsOf (codec env) (Encoded e) = Inr (map snd ds)"
    using assms(2) by (simp add: flatTxnsOf_def)
  have none: "txnsToSignOf env (Encoded e) (map snd ds) f = Inr []"
    using assms(2,3) by (simp add: txnsToSignOf_def processEncodedTxns_Nil_iff)
  from signTransactions_nothing_to_sign [OF assms(1) fl none]
  show "signTransactions env w (Encoded e) f = (w, Inr (replicate (length ds) Null))"
    by simp
  from signTransactions_mm_nothing_to_sign [OF assms(1) fl none]
  show "signTransactions_mm env w (Encoded e) f = (w, Inr (replicate (length ds) Null))"
    by simp
qed

lemma signTransactions_structured_result:
  assumes "initializeEvmSdk env = Inr k"
    and contract: "\<And>a ts bs. signTxn k a ts = Inr bs \<Longrightarrow> length bs = length ts"
    and "signTransactions env w (Structured s) f = (w', Inr res)"
  shows "length res = length (flattenTxnGroup s)"
    and "i < length (flattenTxnGroup s) \<Longrightarrow>
           (if eligibleForSignature f (addresses env) i False (flattenTxnGroup s ! i)
            then \<exists>b. res ! i = Blob b else res ! i = Null)"
proof -
  from assms(3) have t: "signTransactions_try env w (Structured s) f = (w', Inr res)"
    by (simp add: signTransactions_success_iff)
  have both: "length res = length (flattenTxnGroup s)
      \<and> (i < length (flattenTxnGroup s) \<longrightarrow>
           (if eligibleForSignature f (addresses env) i False (flattenTxnGroup s ! i)
            then \<exists>b. res ! i = Blob b else res ! i = Null))"
    using t
  proof (cases rule: signTransactions_try_success)
    case (nothing flat)
    note nf = this
    from nf have fl: "flat = flattenTxnGroup s"
      and none: "processTxns (addresses env) flat f = []"
      by (simp_all add: flatTxnsOf_def txnsToSignOf_def)
    from none [unfolded processTxns_Nil_iff] fl nf(3) show ?thesis by simp
  next
    case (signed k' flat first others w1 evmAddr blobs)
    note sf = this
    from sf have fl: "flat = flattenTxnGroup s" by (simp add: flatTxnsOf_def)
    from sf(1) assms(1) have "k' = k" by simp
    with sf(5) have "signTxn k evmAddr flat = Inr blobs" by simp
    then have "length blobs = length flat" by (rule contract)
    with sf fl show ?thesis
      by (simp add: buildResult_length buildResult_nth at_def)
  qed
  from both show "length res = length (flattenTxnGroup s)" by simp
  from both show "i < length (flattenTxnGroup s) \<Longrightarrow>
           (if eligibleForSignature f (addresses env) i False (flattenTxnGroup s ! i)
            then \<exists>b. res ! i = Blob b else res ! i = Null)" by simp
qed

lemma signTransactions_resolves_first_eligible:
  assumes "signTransactions env w (Structured s) f = (w', Inr res)"
    and "processTxns (addresses env) (flattenTxnGroup s) f = first # others"
  shows "\<exists>i<length (flattenTxnGroup s). first = flattenTxnGroup s ! i
           \<and> eligibleForSignature f (addresses env) i False (flattenTxnGroup s ! i)
           \<and> (\<forall>j<i. \<not> eligibleForSignature f (addresses env) j False (flattenTxnGroup s ! j))"
    and "\<exists>w1 evmAddr. resolveEvmAddress w (sender first) = (w1, Inr evmAddr)
           \<and> SignTxn evmAddr (flattenTxnGroup s) \<in> set (calls w')"
proof -
  from processTxns_from_first [OF assms(2) [unfolded processTxns_def]]
  show "\<exists>i<length (flattenTxnGroup s). first = flattenTxnGroup s ! i
           \<and> eligibleForSignature f (addresses env) i False (flattenTxnGroup s ! i)
           \<and> (\<forall>j<i. \<not> eligibleForSignature f (addresses env) j False (flattenTxnGroup s ! j))"
    by simp
  from assms(1) have t: "signTransactions_try env w (Structured s) f = (w', Inr res)"
    by (simp add: signTransactions_success_iff)
  from t show "\<exists>w1 evmAddr. resolveEvmAddress w (sender first) = (w1, Inr evmAddr)
           \<and> SignTxn evmAddr (flattenTxnGroup s) \<in> set (calls w')"
  proof (cases rule: signTransactions_try_success)
    case (nothing flat)
    with assms(2) show ?thesis by (simp add: flatTxnsOf_def txnsToSignOf_def)
  next
    case (signed k' flat first' others' w1 evmAddr blobs)
    note sf = this
    with assms(2) have "flat = flattenTxnGroup s" "first' = first"
      by (simp_all add: flatTxnsOf_def txnsToSignOf_def)
    with sf show ?thesis by auto
  qed
qed

section \<open>What the signing of liquid-evm-base.ts returns\<close>

text \<open>
  Whenever \<open>signTransactions\<close> of liquid-evm-base.ts returns an array, and the signer
  returns one blob per index it was asked to sign, the array has one entry per classified
  entry: a blob where the entry carries no \<open>signers\<close> marker, \<open>null\<close> where it does. On
  structured input the marker is absent exactly at the eligible positions.
\<close>

lemma processTxns_pkg_from_length:
  "length (processTxns_pkg_from A f k txns) = length txns"
  by (induction txns arbitrary: k) simp_all

lemma processTxns_pkg_from_nth:
  "i < length txns \<Longrightarrow>
     txn (processTxns_pkg_from A f k txns ! i) = txns ! i
   \<and> (signers (processTxns_pkg_from A f k txns ! i) = None
        \<longleftrightarrow> eligibleForSignature f A (k + i) False (txns ! i))"
proof (induction txns arbitrary: k i)
  case Nil
  then show ?case by simp
next
  case (Cons t ts)
  show ?case
  proof (cases i)
    case 0
    then show ?thesis by (simp add: eligibleForSignature_def isIndexMatch_spec)
  next
    case (Suc j)
    with Cons.prems have "j < length ts" by simp
    from Cons.IH [OF this, of "Suc k"] Suc show ?thesis by simp
  qed
qed

lemma signIndexesOf_upt:
  "signIndexesOf sts = filter (\<lambda>i. signers (sts ! i) = None) [0..<length sts]"
proof (induction sts)
  case Nil
  then show ?case by (simp add: signIndexesOf_Nil)
next
  case (Cons t ts)
  have "[0..<length (t # ts)] = 0 # map Suc [0..<length ts]"
    by (simp add: upt_conv_Cons map_Suc_upt del: upt_Suc)
  then show ?case
    by (simp add: signIndexesOf_Cons Cons.IH filter_map comp_def del: upt_Suc)
qed

lemma set_signIndexesOf:
  "i \<in> set (signIndexesOf sts) \<longleftrightarrow> i < length sts \<and> signers (sts ! i) = None"
  by (auto simp: signIndexesOf_upt)

lemma buildResult_pkg_length:
  "length (buildResult_pkg S blobs idx k rest) = length rest"
  by (induction rest arbitrary: idx k) simp_all

lemma buildResult_pkg_nth:
  "j < length rest \<Longrightarrow>
     buildResult_pkg S blobs idx k rest ! j =
       (if k + j \<in> set S
        then at blobs (idx + length (filter (\<lambda>i. i \<in> set S) [k..<k + j])) else Null)"
proof (induction rest arbitrary: idx k j)
  case Nil
  then show ?case by simp
next
  case (Cons t rest)
  show ?case
  proof (cases j)
    case 0
    then show ?thesis by simp
  next
    case (Suc j')
    with Cons.prems have j': "j' < length rest" by simp
    have unfoldk: "[k..<Suc (k + j')] = k # [Suc k..<Suc (k + j')]"
      by (simp add: upt_conv_Cons del: upt_Suc)
    show ?thesis
      using Cons.IH [OF j', of "Suc idx" "Suc k"] Cons.IH [OF j', of idx "Suc k"] Suc
      by (simp add: unfoldk del: upt_Suc)
  qed
qed

lemma count_before_lt:
  "j < n \<Longrightarrow> Q j \<Longrightarrow> length (filter Q [0..<j]) < length (filter Q [0..<n])"
proof (induction n)
  case 0
  then show ?case by simp
next
  case (Suc n)
  show ?case
  proof (cases "j = n")
    case True
    with Suc.prems show ?thesis by simp
  next
    case False
    with Suc.prems have "j < n" by simp
    from Suc.IH [OF this Suc.prems(2)] show ?thesis by simp
  qed
qed

lemma signTransactions_pkg_try_success:
  assumes "signTransactions_pkg_try env w g f = (w', Inr res)"
    and "initializeEvmSdk env = Inr k"
  shows "\<exists>sts evmAddr signer blobs.
           txnsToSignOf_pkg env g f = Inr sts
         \<and> getSigner k evmAddr = Inr signer
         \<and> signer (map txn sts) (signIndexesOf sts) = Inr blobs
         \<and> res = buildResult_pkg (signIndexesOf sts) blobs 0 0 sts"
proof (cases "txnsToSignOf_pkg env g f")
  case (Inl e)
  with assms show ?thesis by (simp add: signTransactions_pkg_try_def)
next
  case sts: (Inr sts)
  show ?thesis
  proof (cases sts)
    case Nil
    with assms sts show ?thesis by (simp add: signTransactions_pkg_try_def)
  next
    case (Cons first others)
    obtain w2 b where b:
      "runBeforeSign env w
         (Encoded (Flat (map (\<lambda>t. encodeUnsignedTransaction (codec env) (txn t))
                           (first # others)))) f = (w2, b)"
      by (cases "runBeforeSign env w
         (Encoded (Flat (map (\<lambda>t. encodeUnsignedTransaction (codec env) (txn t))
                           (first # others)))) f")
    obtain evs c where c: "ensureAlgorandChain_pkg env = (evs, c)"
      by (cases "ensureAlgorandChain_pkg env")
    from assms sts Cons b c show ?thesis
      by (auto simp: signTransactions_pkg_try_def simp del: buildResult_pkg.simps
            split: sum.splits option.splits)
  qed
qed

lemma signTransactions_pkg_result:
  assumes "initializeEvmSdk env = Inr k"
    and contract: "\<And>a signer ts is bs.
           getSigner k a = Inr signer \<Longrightarrow> signer ts is = Inr bs \<Longrightarrow> length bs = length is"
    and "signTransactions_pkg env w g f = (w', Inr res)"
  shows "\<exists>sts. txnsToSignOf_pkg env g f = Inr sts \<and> length res = length sts
           \<and> (\<forall>i<length sts. if signers (sts ! i) = None
                               then \<exists>b. res ! i = Blob b else res ! i = Null)"
proof -
  from assms(3) have "signTransactions_pkg_try env w g f = (w', Inr res)"
    by (simp add: signTransactions_pkg_success_iff)
  from signTransactions_pkg_try_success [OF this assms(1)]
  obtain sts evmAddr signer blobs where
    sts: "txnsToSignOf_pkg env g f = Inr sts"
    and gs: "getSigner k evmAddr = Inr signer"
    and sg: "signer (map txn sts) (signIndexesOf sts) = Inr blobs"
    and res: "res = buildResult_pkg (signIndexesOf sts) blobs 0 0 sts"
    by blast
  from contract [OF gs sg] have len: "length blobs = length (signIndexesOf sts)" .
  have "if signers (sts ! i) = None then \<exists>b. res ! i = Blob b else res ! i = Null"
    if i: "i < length sts" for i
  proof (cases "signers (sts ! i) = None")
    case True
    let ?Q = "\<lambda>j. signers (sts ! j) = None"
    have "filter (\<lambda>j. j < length sts \<and> ?Q j) [0..<i] = filter ?Q [0..<i]"
      using i by (intro filter_cong) auto
    moreover have "length (filter ?Q [0..<i]) < length (filter ?Q [0..<length sts])"
      using i True by (rule count_before_lt)
    ultimately have "length (filter (\<lambda>j. j < length sts \<and> ?Q j) [0..<i]) < length blobs"
      by (simp add: len signIndexesOf_upt)
    with i True show ?thesis
      by (simp add: res buildResult_pkg_nth set_signIndexesOf at_def)
  next
    case False
    with i show ?thesis by (auto simp: res buildResult_pkg_nth set_signIndexesOf)
  qed
  with sts res show ?thesis by (auto simp: buildResult_pkg_length)
qed

lemma processTxns_pkg_classifies:
  "txnsToSignOf_pkg env (Structured s) f = Inr sts \<Longrightarrow>
     length sts = length (flattenTxnGroup s)
   \<and> (\<forall>i<length sts. txn (sts ! i) = flattenTxnGroup s ! i
         \<and> (signers (sts ! i) = None
              \<longleftrightarrow> eligibleForSignature f (addresses env) i False (flattenTxnGroup s ! i)))"
  using processTxns_pkg_from_nth [of _ "flattenTxnGroup s" "addresses env" f 0]
  by (auto simp: txnsToSignOf_pkg_def processTxns_pkg_def processTxns_pkg_from_length)

section \<open>The empty filter in liquid-evm-base.ts\<close>

text \<open>
  Claim C10 says that with an empty index filter every entry is classified ineligible and
  the result is an all-\<open>null\<close> array of the normalized length. \<open>signTransactions\<close> of
  liquid-evm-base.ts classifies every entry as the claim says (each carries the
  \<open>signers\<close> marker) but, having no return for the case that nothing is to be signed, goes
  on to look up the sender of the first entry: with the entry of the foreign address
  \<open>BOB\<close>, or with the entry of \<open>ALICE\<close> while the map is empty, it throws the
  no-source-address error, and with an empty group it throws a \<open>TypeError\<close>. Only when the
  first sender happens to be in the map does it return \<open>[null]\<close>, after calling the signer
  with no index. \<open>signTransactions\<close> of unnamed/part\_000 returns \<open>[null]\<close> on these inputs
  and leaves the wallet untouched.
\<close>

theorem empty_filter_still_fails:
  "txnsToSignOf_pkg exampleEnv (Structured (Flat [Transaction ''BOB'' [1]])) (Some [])
     = Inr [\<lparr>txn = Transaction ''BOB'' [1], signers = Some []\<rparr>]
   \<and> snd (signTransactions_pkg exampleEnv connectedWallet
             (Structured (Flat [Transaction ''BOB'' [1]])) (Some []))
       = Inl (Error None ''No EVM address found for Algorand address: BOB'')
   \<and> snd (signTransactions_pkg exampleEnv connectedWallet (Structured (Flat [])) (Some []))
       = Inl typeErrorFirstTxn
   \<and> txnsToSignOf_pkg exampleEnv (Structured (Flat [Transaction ''ALICE'' [1]])) (Some [])
       = Inr [\<lparr>txn = Transaction ''ALICE'' [1], signers = Some []\<rparr>]
   \<and> snd (signTransactions_pkg exampleEnv freshWallet
             (Structured (Flat [Transaction ''ALICE'' [1]])) (Some []))
       = Inl (Error None ''No EVM address found for Algorand address: ALICE'')
   \<and> snd (signTransactions_pkg exampleEnv connectedWallet
             (Structured (Flat [Transaction ''ALICE'' [1]])) (Some []))
       = Inr [Null]
   \<and> filter isSignatureCall
        (calls (fst (signTransactions_pkg exampleEnv connectedWallet
                       (Structured (Flat [Transaction ''ALICE'' [1]])) (Some []))))
       = [GetSigner ''0xA'', EvmSigner [Transaction ''ALICE'' [1]] []]
   \<and> signTransactions exampleEnv connectedWallet
         (Structured (Flat [Transaction ''BOB'' [1]])) (Some [])
       = (connectedWallet, Inr [Null])
   \<and> signTransactions exampleEnv freshWallet
         (Structured (Flat [Transaction ''ALICE'' [1]])) (Some [])
       = (freshWallet, Inr [Null])"
  by (simp add: sign_defs example_defs noEvmAddress_def)

end
